theory Spec2Isabelle
  imports Complex_Main
begin

section \<open>JavaScript values, errors and property access\<close>

text \<open>
  The two order tools of the Shopify MCP server (\<^verbatim>\<open>src/tools/getOrders.ts\<close> and
  \<^verbatim>\<open>src/tools/getOrderById.ts\<close>) handle untyped data: the response of the GraphQL
  client is declared \<^verbatim>\<open>any\<close>. A response is therefore a value of the datatype
  \<open>jsval\<close>, and every property access that JavaScript would answer with a
  \<^verbatim>\<open>TypeError\<close> is a branch of the model.

  A JavaScript number is a double. The tools never compute with a number, they only
  copy it (\<^verbatim>\<open>limit\<close>) and test it for truthiness, so the finite numbers are taken
  as reals, next to the two infinities and NaN.
\<close>

datatype number = Finite real | Infinity | NegInfinity | NaN

text \<open>
  An object is the list of its own properties; a property is looked up from the left.
\<close>

datatype jsval =
    JUndefined
  | JNull
  | JBool bool
  | JNum number
  | JStr string
  | JArr "jsval list"
  | JObj "(string \<times> jsval) list"

text \<open>
  What can be thrown: an \<^verbatim>\<open>Error\<close> made by the tools themselves, a
  \<^verbatim>\<open>TypeError\<close> of the runtime, and the \<^verbatim>\<open>ClientError\<close> of graphql-request
  for a response that carries GraphQL errors or a bad HTTP status. All three carry a
  \<^verbatim>\<open>message\<close>.
\<close>

datatype JsError =
    Error (message: string)
  | TypeError (message: string)
  | ClientError (message: string)

text \<open>The conversion to a boolean that \<^verbatim>\<open>if (v)\<close> and \<^verbatim>\<open>!v\<close> apply.\<close>

fun truthy :: "jsval \<Rightarrow> bool" where
  "truthy JUndefined = False"
| "truthy JNull = False"
| "truthy (JBool b) = b"
| "truthy (JNum n) = (n \<noteq> Finite 0 \<and> n \<noteq> NaN)"
| "truthy (JStr s) = (s \<noteq> [])"
| "truthy (JArr xs) = True"
| "truthy (JObj fs) = True"

text \<open>
  A field declared \<^verbatim>\<open>name?: string\<close> holds a string or \<^verbatim>\<open>undefined\<close>.
\<close>

fun optStr :: "string option \<Rightarrow> jsval" where
  "optStr None = JUndefined"
| "optStr (Some s) = JStr s"

text \<open>
  The message of the \<^verbatim>\<open>TypeError\<close> that V8 raises when a property of
  \<^verbatim>\<open>undefined\<close> or \<^verbatim>\<open>null\<close> is read.
\<close>

definition cannotRead :: "string \<Rightarrow> string \<Rightarrow> string" where
  "cannotRead what key =
     ''Cannot read properties of '' @ what @ '' (reading '' @ [CHR 0x27] @ key @ [CHR 0x27] @ '')''"

text \<open>
  \<^verbatim>\<open>v.key\<close>, for the keys the tools read (\<^verbatim>\<open>orders\<close>, \<^verbatim>\<open>edges\<close>,
  \<^verbatim>\<open>pageInfo\<close>, \<^verbatim>\<open>node\<close>, \<^verbatim>\<open>cursor\<close>, \<^verbatim>\<open>order\<close>): none of them is a
  built-in property of a string, a number, a boolean or an array, so these answer
  \<^verbatim>\<open>undefined\<close>.
\<close>

fun getProp :: "jsval \<Rightarrow> string \<Rightarrow> JsError + jsval" where
  "getProp JUndefined key = Inl (TypeError (cannotRead ''undefined'' key))"
| "getProp JNull key = Inl (TypeError (cannotRead ''null'' key))"
| "getProp (JObj fs) key = Inr (case map_of fs key of None \<Rightarrow> JUndefined | Some v \<Rightarrow> v)"
| "getProp v key = Inr JUndefined"

text \<open>Sequencing of steps that may throw: the first throw ends the run.\<close>

definition bindE :: "'e + 'a \<Rightarrow> ('a \<Rightarrow> 'e + 'b) \<Rightarrow> 'e + 'b" where
  "bindE r f = (case r of Inl e \<Rightarrow> Inl e | Inr v \<Rightarrow> f v)"

fun mapE :: "('a \<Rightarrow> 'e + 'b) \<Rightarrow> 'a list \<Rightarrow> 'e + 'b list" where
  "mapE f [] = Inr []"
| "mapE f (x # xs) = bindE (f x) (\<lambda>y. bindE (mapE f xs) (\<lambda>ys. Inr (y # ys)))"

text \<open>
  \<^verbatim>\<open>v.map(f)\<close>: an array maps its elements from left to right; on \<^verbatim>\<open>undefined\<close>
  and \<^verbatim>\<open>null\<close> the read of \<^verbatim>\<open>map\<close> throws; any other value of a response has no
  callable \<^verbatim>\<open>map\<close>. The second argument is the source text of the callee, which
  V8 prints in the message.
\<close>

fun callMap :: "jsval \<Rightarrow> string \<Rightarrow> (jsval \<Rightarrow> JsError + jsval) \<Rightarrow> JsError + jsval list" where
  "callMap JUndefined src f = Inl (TypeError (cannotRead ''undefined'' ''map''))"
| "callMap JNull src f = Inl (TypeError (cannotRead ''null'' ''map''))"
| "callMap (JArr xs) src f = mapE f xs"
| "callMap v src f = Inl (TypeError (src @ '' is not a function''))"

section \<open>The GraphQL client and the module state\<close>

text \<open>
  \<^verbatim>\<open>new GraphQLClient(url, { headers })\<close> in the server's entry file. What a request
  of a client returns is decided outside the program: the network is a parameter of
  every run, a function from the client, the document and the variables to the
  response data or to the error the client throws.
\<close>

record GraphQLClient =
  url :: string
  headers :: "(string \<times> string) list"

type_synonym Variables = "string \<rightharpoonup> jsval"

type_synonym Request = "string \<times> Variables"

type_synonym Network = "GraphQLClient \<Rightarrow> string \<Rightarrow> Variables \<Rightarrow> JsError + jsval"

text \<open>
  Each tool module has one variable, \<^verbatim>\<open>let shopifyClient: GraphQLClient\<close>, which is
  \<^verbatim>\<open>undefined\<close> until \<^verbatim>\<open>initialize\<close> has run.
\<close>

record Module =
  shopifyClient :: "GraphQLClient option"

definition initialize :: "GraphQLClient \<Rightarrow> Module \<Rightarrow> Module" where
  "initialize client m = m\<lparr>shopifyClient := Some client\<rparr>"

text \<open>
  A run of a tool: what it returns or throws, the module state it leaves, and the
  requests it has made on the client, in order.
\<close>

record ('e, 'r) Run =
  result :: "'e + 'r"
  state :: Module
  requests :: "Request list"

text \<open>
  \<^verbatim>\<open>await shopifyClient.request(query, variables)\<close>: with no client installed the read
  of \<^verbatim>\<open>request\<close> throws and nothing is sent.
\<close>

definition request :: "Network \<Rightarrow> Module \<Rightarrow> string \<Rightarrow> Variables \<Rightarrow> (JsError + jsval) \<times> Request list" where
  "request net m document variables =
     (case shopifyClient m of
        None \<Rightarrow> (Inl (TypeError (cannotRead ''undefined'' ''request'')), [])
      | Some client \<Rightarrow> (net client document variables, [(document, variables)]))"

text \<open>
  \<^verbatim>\<open>catch (error) { throw new Error(`<prefix>${error.message}`) }\<close>
\<close>

definition rethrow :: "string \<Rightarrow> JsError + 'a \<Rightarrow> JsError + 'a" where
  "rethrow prefix r =
     (case r of Inl error \<Rightarrow> Inl (Error (prefix @ message error)) | Inr v \<Rightarrow> Inr v)"

section \<open>getOrders\<close>

text \<open>
  The type \<^verbatim>\<open>GetOrdersInput\<close> inferred from the schema: \<^verbatim>\<open>query\<close>, \<^verbatim>\<open>after\<close>
  and \<^verbatim>\<open>before\<close> are optional strings, the other three fields are always there.
\<close>

record GetOrdersInput =
  query :: "string option"
  limit :: number
  after :: "string option"
  before :: "string option"
  reverse :: bool
  sortKey :: string

text \<open>The document: the template literal of \<^verbatim>\<open>execute\<close>, line by line.\<close>

definition GetOrders_query :: string where
  "GetOrders_query =
     ''\<newline>'' @
     ''        query GetOrders(\<newline>'' @
     ''          $first: Int\<newline>'' @
     ''          $last: Int\<newline>'' @
     ''          $after: String\<newline>'' @
     ''          $before: String\<newline>'' @
     ''          $query: String\<newline>'' @
     ''          $reverse: Boolean\<newline>'' @
     ''          $sortKey: OrderSortKeys\<newline>'' @
     ''        ) {\<newline>'' @
     ''          orders(\<newline>'' @
     ''            first: $first\<newline>'' @
     ''            last: $last\<newline>'' @
     ''            after: $after\<newline>'' @
     ''            before: $before\<newline>'' @
     ''            query: $query\<newline>'' @
     ''            reverse: $reverse\<newline>'' @
     ''            sortKey: $sortKey\<newline>'' @
     ''          ) {\<newline>'' @
     ''            pageInfo {\<newline>'' @
     ''              hasNextPage\<newline>'' @
     ''              hasPreviousPage\<newline>'' @
     ''              startCursor\<newline>'' @
     ''              endCursor\<newline>'' @
     ''            }\<newline>'' @
     ''            edges {\<newline>'' @
     ''              cursor\<newline>'' @
     ''              node {\<newline>'' @
     ''                id\<newline>'' @
     ''                name\<newline>'' @
     ''                email\<newline>'' @
     ''                phone\<newline>'' @
     ''                createdAt\<newline>'' @
     ''                updatedAt\<newline>'' @
     ''                processedAt\<newline>'' @
     ''                closedAt\<newline>'' @
     ''                cancelledAt\<newline>'' @
     ''                cancelReason\<newline>'' @
     ''                confirmed\<newline>'' @
     ''                test\<newline>'' @
     ''                displayFinancialStatus\<newline>'' @
     ''                displayFulfillmentStatus\<newline>'' @
     ''                subtotalPriceSet {\<newline>'' @
     ''                  shopMoney {\<newline>'' @
     ''                    amount\<newline>'' @
     ''                    currencyCode\<newline>'' @
     ''                  }\<newline>'' @
     ''                }\<newline>'' @
     ''                totalPriceSet {\<newline>'' @
     ''                  shopMoney {\<newline>'' @
     ''                    amount\<newline>'' @
     ''                    currencyCode\<newline>'' @
     ''                  }\<newline>'' @
     ''                }\<newline>'' @
     ''                totalTaxSet {\<newline>'' @
     ''                  shopMoney {\<newline>'' @
     ''                    amount\<newline>'' @
     ''                    currencyCode\<newline>'' @
     ''                  }\<newline>'' @
     ''                }\<newline>'' @
     ''                totalShippingPriceSet {\<newline>'' @
     ''                  shopMoney {\<newline>'' @
     ''                    amount\<newline>'' @
     ''                    currencyCode\<newline>'' @
     ''                  }\<newline>'' @
     ''                }\<newline>'' @
     ''                totalDiscountsSet {\<newline>'' @
     ''                  shopMoney {\<newline>'' @
     ''                    amount\<newline>'' @
     ''                    currencyCode\<newline>'' @
     ''                  }\<newline>'' @
     ''                }\<newline>'' @
     ''                customer {\<newline>'' @
     ''                  id\<newline>'' @
     ''                  firstName\<newline>'' @
     ''                  lastName\<newline>'' @
     ''                  email\<newline>'' @
     ''                  phone\<newline>'' @
     ''                }\<newline>'' @
     ''                shippingAddress {\<newline>'' @
     ''                  address1\<newline>'' @
     ''                  address2\<newline>'' @
     ''                  city\<newline>'' @
     ''                  province\<newline>'' @
     ''                  country\<newline>'' @
     ''                  zip\<newline>'' @
     ''                }\<newline>'' @
     ''                billingAddress {\<newline>'' @
     ''                  address1\<newline>'' @
     ''                  address2\<newline>'' @
     ''                  city\<newline>'' @
     ''                  province\<newline>'' @
     ''                  country\<newline>'' @
     ''                  zip\<newline>'' @
     ''                }\<newline>'' @
     ''                lineItems(first: 10) {\<newline>'' @
     ''                  edges {\<newline>'' @
     ''                    node {\<newline>'' @
     ''                      id\<newline>'' @
     ''                      title\<newline>'' @
     ''                      quantity\<newline>'' @
     ''                      originalUnitPriceSet {\<newline>'' @
     ''                        shopMoney {\<newline>'' @
     ''                          amount\<newline>'' @
     ''                          currencyCode\<newline>'' @
     ''                        }\<newline>'' @
     ''                      }\<newline>'' @
     ''                      discountedUnitPriceSet {\<newline>'' @
     ''                        shopMoney {\<newline>'' @
     ''                          amount\<newline>'' @
     ''                          currencyCode\<newline>'' @
     ''                        }\<newline>'' @
     ''                      }\<newline>'' @
     ''                      variant {\<newline>'' @
     ''                        id\<newline>'' @
     ''                        title\<newline>'' @
     ''                        sku\<newline>'' @
     ''                        image {\<newline>'' @
     ''                          url\<newline>'' @
     ''                          altText\<newline>'' @
     ''                        }\<newline>'' @
     ''                      }\<newline>'' @
     ''                      product {\<newline>'' @
     ''                        id\<newline>'' @
     ''                        title\<newline>'' @
     ''                        handle\<newline>'' @
     ''                      }\<newline>'' @
     ''                    }\<newline>'' @
     ''                  }\<newline>'' @
     ''                }\<newline>'' @
     ''                fulfillments {\<newline>'' @
     ''                  id\<newline>'' @
     ''                  status\<newline>'' @
     ''                  createdAt\<newline>'' @
     ''                  updatedAt\<newline>'' @
     ''                  trackingInfo {\<newline>'' @
     ''                    company\<newline>'' @
     ''                    number\<newline>'' @
     ''                    url\<newline>'' @
     ''                  }\<newline>'' @
     ''                }\<newline>'' @
     ''                tags\<newline>'' @
     ''                note\<newline>'' @
     ''              }\<newline>'' @
     ''            }\<newline>'' @
     ''          }\<newline>'' @
     ''        }\<newline>'' @
     ''      ''"

text \<open>
  The variables: \<^verbatim>\<open>reverse\<close> and \<^verbatim>\<open>sortKey\<close> first, then the pagination
  (\<^verbatim>\<open>if (before) ... else ... if (after) ...\<close>), then the search query
  (\<^verbatim>\<open>if (searchQuery) ...\<close>).
\<close>

definition getOrders_pagination :: "GetOrdersInput \<Rightarrow> Variables \<Rightarrow> Variables" where
  "getOrders_pagination input variables =
     (if truthy (optStr (before input))
      then variables(''last'' \<mapsto> JNum (limit input), ''before'' \<mapsto> optStr (before input))
      else (let variables = variables(''first'' \<mapsto> JNum (limit input))
            in if truthy (optStr (after input))
               then variables(''after'' \<mapsto> optStr (after input))
               else variables))"

definition getOrders_search :: "GetOrdersInput \<Rightarrow> Variables \<Rightarrow> Variables" where
  "getOrders_search input variables =
     (if truthy (optStr (query input))
      then variables(''query'' \<mapsto> optStr (query input))
      else variables)"

definition getOrders_variables :: "GetOrdersInput \<Rightarrow> Variables" where
  "getOrders_variables input =
     getOrders_search input
       (getOrders_pagination input
          [''reverse'' \<mapsto> JBool (reverse input), ''sortKey'' \<mapsto> JStr (sortKey input)])"

text \<open>The object that \<^verbatim>\<open>execute\<close> returns.\<close>

record GetOrdersResult =
  orders :: "jsval list"
  pageInfo :: jsval
  cursors :: "jsval list"

text \<open>
  The \<^verbatim>\<open>return\<close> statement: \<^verbatim>\<open>data.orders.edges.map(edge => edge.node)\<close>, then
  \<^verbatim>\<open>data.orders.pageInfo\<close>, then \<^verbatim>\<open>data.orders.edges.map(edge => edge.cursor)\<close>,
  evaluated in this order.
\<close>

definition getOrders_return :: "jsval \<Rightarrow> JsError + GetOrdersResult" where
  "getOrders_return data =
     bindE (getProp data ''orders'') (\<lambda>o1.
     bindE (getProp o1 ''edges'') (\<lambda>e1.
     bindE (callMap e1 ''data.orders.edges.map'' (\<lambda>edge. getProp edge ''node'')) (\<lambda>nodes.
     bindE (getProp data ''orders'') (\<lambda>o2.
     bindE (getProp o2 ''pageInfo'') (\<lambda>info.
     bindE (getProp data ''orders'') (\<lambda>o3.
     bindE (getProp o3 ''edges'') (\<lambda>e3.
     bindE (callMap e3 ''data.orders.edges.map'' (\<lambda>edge. getProp edge ''cursor'')) (\<lambda>cs.
     Inr \<lparr>orders = nodes, pageInfo = info, cursors = cs\<rparr>))))))))"

text \<open>The body of \<^verbatim>\<open>try\<close>, and \<^verbatim>\<open>execute\<close> with its \<^verbatim>\<open>catch\<close>.\<close>

definition getOrders_try :: "Network \<Rightarrow> Module \<Rightarrow> GetOrdersInput \<Rightarrow> (JsError, GetOrdersResult) Run" where
  "getOrders_try net m input =
     (let (response, sent) = request net m GetOrders_query (getOrders_variables input)
      in \<lparr>result = bindE response getOrders_return, state = m, requests = sent\<rparr>)"

definition getOrders_execute :: "Network \<Rightarrow> Module \<Rightarrow> GetOrdersInput \<Rightarrow> (JsError, GetOrdersResult) Run" where
  "getOrders_execute net m input =
     (let run = getOrders_try net m input
      in \<lparr>result = rethrow ''Failed to fetch orders: '' (result run),
          state = state run, requests = requests run\<rparr>)"

section \<open>getOrderById\<close>

record GetOrderByIdInput =
  orderId :: string

definition GetOrderById_query :: string where
  "GetOrderById_query =
     ''\<newline>'' @
     ''        query GetOrderById($id: ID!) {\<newline>'' @
     ''          order(id: $id) {\<newline>'' @
     ''            id\<newline>'' @
     ''            name\<newline>'' @
     ''            email\<newline>'' @
     ''            phone\<newline>'' @
     ''            createdAt\<newline>'' @
     ''            updatedAt\<newline>'' @
     ''            processedAt\<newline>'' @
     ''            closedAt\<newline>'' @
     ''            cancelledAt\<newline>'' @
     ''            cancelReason\<newline>'' @
     ''            confirmed\<newline>'' @
     ''            test\<newline>'' @
     ''            displayFinancialStatus\<newline>'' @
     ''            displayFulfillmentStatus\<newline>'' @
     ''            subtotalPriceSet {\<newline>'' @
     ''              shopMoney {\<newline>'' @
     ''                amount\<newline>'' @
     ''                currencyCode\<newline>'' @
     ''              }\<newline>'' @
     ''              presentmentMoney {\<newline>'' @
     ''                amount\<newline>'' @
     ''                currencyCode\<newline>'' @
     ''              }\<newline>'' @
     ''            }\<newline>'' @
     ''            totalPriceSet {\<newline>'' @
     ''              shopMoney {\<newline>'' @
     ''                amount\<newline>'' @
     ''                currencyCode\<newline>'' @
     ''              }\<newline>'' @
     ''              presentmentMoney {\<newline>'' @
     ''                amount\<newline>'' @
     ''                currencyCode\<newline>'' @
     ''              }\<newline>'' @
     ''            }\<newline>'' @
     ''            totalTaxSet {\<newline>'' @
     ''              shopMoney {\<newline>'' @
     ''                amount\<newline>'' @
     ''                currencyCode\<newline>'' @
     ''              }\<newline>'' @
     ''              presentmentMoney {\<newline>'' @
     ''                amount\<newline>'' @
     ''                currencyCode\<newline>'' @
     ''              }\<newline>'' @
     ''            }\<newline>'' @
     ''            totalShippingPriceSet {\<newline>'' @
     ''              shopMoney {\<newline>'' @
     ''                amount\<newline>'' @
     ''                currencyCode\<newline>'' @
     ''              }\<newline>'' @
     ''              presentmentMoney {\<newline>'' @
     ''                amount\<newline>'' @
     ''                currencyCode\<newline>'' @
     ''              }\<newline>'' @
     ''            }\<newline>'' @
     ''            totalDiscountsSet {\<newline>'' @
     ''              shopMoney {\<newline>'' @
     ''                amount\<newline>'' @
     ''                currencyCode\<newline>'' @
     ''              }\<newline>'' @
     ''              presentmentMoney {\<newline>'' @
     ''                amount\<newline>'' @
     ''                currencyCode\<newline>'' @
     ''              }\<newline>'' @
     ''            }\<newline>'' @
     ''            currentTotalPriceSet {\<newline>'' @
     ''              shopMoney {\<newline>'' @
     ''                amount\<newline>'' @
     ''                currencyCode\<newline>'' @
     ''              }\<newline>'' @
     ''              presentmentMoney {\<newline>'' @
     ''                amount\<newline>'' @
     ''                currencyCode\<newline>'' @
     ''              }\<newline>'' @
     ''            }\<newline>'' @
     ''            customer {\<newline>'' @
     ''              id\<newline>'' @
     ''              firstName\<newline>'' @
     ''              lastName\<newline>'' @
     ''              email\<newline>'' @
     ''              phone\<newline>'' @
     ''              defaultAddress {\<newline>'' @
     ''                address1\<newline>'' @
     ''                address2\<newline>'' @
     ''                city\<newline>'' @
     ''                province\<newline>'' @
     ''                country\<newline>'' @
     ''                zip\<newline>'' @
     ''              }\<newline>'' @
     ''            }\<newline>'' @
     ''            shippingAddress {\<newline>'' @
     ''              address1\<newline>'' @
     ''              address2\<newline>'' @
     ''              city\<newline>'' @
     ''              province\<newline>'' @
     ''              country\<newline>'' @
     ''              zip\<newline>'' @
     ''              name\<newline>'' @
     ''              company\<newline>'' @
     ''              phone\<newline>'' @
     ''            }\<newline>'' @
     ''            billingAddress {\<newline>'' @
     ''              address1\<newline>'' @
     ''              address2\<newline>'' @
     ''              city\<newline>'' @
     ''              province\<newline>'' @
     ''              country\<newline>'' @
     ''              zip\<newline>'' @
     ''              name\<newline>'' @
     ''              company\<newline>'' @
     ''              phone\<newline>'' @
     ''            }\<newline>'' @
     ''            lineItems(first: 250) {\<newline>'' @
     ''              edges {\<newline>'' @
     ''                node {\<newline>'' @
     ''                  id\<newline>'' @
     ''                  title\<newline>'' @
     ''                  quantity\<newline>'' @
     ''                  originalUnitPriceSet {\<newline>'' @
     ''                    shopMoney {\<newline>'' @
     ''                      amount\<newline>'' @
     ''                      currencyCode\<newline>'' @
     ''                    }\<newline>'' @
     ''                    presentmentMoney {\<newline>'' @
     ''                      amount\<newline>'' @
     ''                      currencyCode\<newline>'' @
     ''                    }\<newline>'' @
     ''                  }\<newline>'' @
     ''                  discountedUnitPriceSet {\<newline>'' @
     ''                    shopMoney {\<newline>'' @
     ''                      amount\<newline>'' @
     ''                      currencyCode\<newline>'' @
     ''                    }\<newline>'' @
     ''                    presentmentMoney {\<newline>'' @
     ''                      amount\<newline>'' @
     ''                      currencyCode\<newline>'' @
     ''                    }\<newline>'' @
     ''                  }\<newline>'' @
     ''                  originalTotalSet {\<newline>'' @
     ''                    shopMoney {\<newline>'' @
     ''                      amount\<newline>'' @
     ''                      currencyCode\<newline>'' @
     ''                    }\<newline>'' @
     ''                    presentmentMoney {\<newline>'' @
     ''                      amount\<newline>'' @
     ''                      currencyCode\<newline>'' @
     ''                    }\<newline>'' @
     ''                  }\<newline>'' @
     ''                  discountedTotalSet {\<newline>'' @
     ''                    shopMoney {\<newline>'' @
     ''                      amount\<newline>'' @
     ''                      currencyCode\<newline>'' @
     ''                    }\<newline>'' @
     ''                    presentmentMoney {\<newline>'' @
     ''                      amount\<newline>'' @
     ''                      currencyCode\<newline>'' @
     ''                    }\<newline>'' @
     ''                  }\<newline>'' @
     ''                  variant {\<newline>'' @
     ''                    id\<newline>'' @
     ''                    title\<newline>'' @
     ''                    sku\<newline>'' @
     ''                    price\<newline>'' @
     ''                    image {\<newline>'' @
     ''                      url\<newline>'' @
     ''                      altText\<newline>'' @
     ''                    }\<newline>'' @
     ''                  }\<newline>'' @
     ''                  product {\<newline>'' @
     ''                    id\<newline>'' @
     ''                    title\<newline>'' @
     ''                    handle\<newline>'' @
     ''                    productType\<newline>'' @
     ''                    vendor\<newline>'' @
     ''                  }\<newline>'' @
     ''                  customAttributes {\<newline>'' @
     ''                    key\<newline>'' @
     ''                    value\<newline>'' @
     ''                  }\<newline>'' @
     ''                }\<newline>'' @
     ''              }\<newline>'' @
     ''            }\<newline>'' @
     ''            fulfillments {\<newline>'' @
     ''              id\<newline>'' @
     ''              status\<newline>'' @
     ''              createdAt\<newline>'' @
     ''              updatedAt\<newline>'' @
     ''              deliveredAt\<newline>'' @
     ''              estimatedDeliveryAt\<newline>'' @
     ''              inTransitAt\<newline>'' @
     ''              trackingInfo {\<newline>'' @
     ''                company\<newline>'' @
     ''                number\<newline>'' @
     ''                url\<newline>'' @
     ''              }\<newline>'' @
     ''              fulfillmentLineItems(first: 250) {\<newline>'' @
     ''                edges {\<newline>'' @
     ''                  node {\<newline>'' @
     ''                    id\<newline>'' @
     ''                    quantity\<newline>'' @
     ''                    lineItem {\<newline>'' @
     ''                      id\<newline>'' @
     ''                      title\<newline>'' @
     ''                    }\<newline>'' @
     ''                  }\<newline>'' @
     ''                }\<newline>'' @
     ''              }\<newline>'' @
     ''            }\<newline>'' @
     ''            shippingLine {\<newline>'' @
     ''              title\<newline>'' @
     ''              code\<newline>'' @
     ''              source\<newline>'' @
     ''              originalPriceSet {\<newline>'' @
     ''                shopMoney {\<newline>'' @
     ''                  amount\<newline>'' @
     ''                  currencyCode\<newline>'' @
     ''                }\<newline>'' @
     ''                presentmentMoney {\<newline>'' @
     ''                  amount\<newline>'' @
     ''                  currencyCode\<newline>'' @
     ''                }\<newline>'' @
     ''              }\<newline>'' @
     ''              discountedPriceSet {\<newline>'' @
     ''                shopMoney {\<newline>'' @
     ''                  amount\<newline>'' @
     ''                  currencyCode\<newline>'' @
     ''                }\<newline>'' @
     ''                presentmentMoney {\<newline>'' @
     ''                  amount\<newline>'' @
     ''                  currencyCode\<newline>'' @
     ''                }\<newline>'' @
     ''              }\<newline>'' @
     ''            }\<newline>'' @
     ''            transactions(first: 250) {\<newline>'' @
     ''              id\<newline>'' @
     ''              kind\<newline>'' @
     ''              status\<newline>'' @
     ''              amount\<newline>'' @
     ''              gateway\<newline>'' @
     ''              createdAt\<newline>'' @
     ''              processedAt\<newline>'' @
     ''              errorCode\<newline>'' @
     ''            }\<newline>'' @
     ''            refunds {\<newline>'' @
     ''              id\<newline>'' @
     ''              createdAt\<newline>'' @
     ''              note\<newline>'' @
     ''              totalRefundedSet {\<newline>'' @
     ''                shopMoney {\<newline>'' @
     ''                  amount\<newline>'' @
     ''                  currencyCode\<newline>'' @
     ''                }\<newline>'' @
     ''                presentmentMoney {\<newline>'' @
     ''                  amount\<newline>'' @
     ''                  currencyCode\<newline>'' @
     ''                }\<newline>'' @
     ''              }\<newline>'' @
     ''              refundLineItems(first: 250) {\<newline>'' @
     ''                edges {\<newline>'' @
     ''                  node {\<newline>'' @
     ''                    quantity\<newline>'' @
     ''                    restockType\<newline>'' @
     ''                    lineItem {\<newline>'' @
     ''                      id\<newline>'' @
     ''                      title\<newline>'' @
     ''                    }\<newline>'' @
     ''                  }\<newline>'' @
     ''                }\<newline>'' @
     ''              }\<newline>'' @
     ''            }\<newline>'' @
     ''            risks(first: 10) {\<newline>'' @
     ''              level\<newline>'' @
     ''              message\<newline>'' @
     ''              display\<newline>'' @
     ''            }\<newline>'' @
     ''            discountApplications(first: 10) {\<newline>'' @
     ''              edges {\<newline>'' @
     ''                node {\<newline>'' @
     ''                  allocationMethod\<newline>'' @
     ''                  targetSelection\<newline>'' @
     ''                  targetType\<newline>'' @
     ''                  value {\<newline>'' @
     ''                    ... on MoneyV2 {\<newline>'' @
     ''                      amount\<newline>'' @
     ''                      currencyCode\<newline>'' @
     ''                    }\<newline>'' @
     ''                    ... on PricingPercentageValue {\<newline>'' @
     ''                      percentage\<newline>'' @
     ''                    }\<newline>'' @
     ''                  }\<newline>'' @
     ''                }\<newline>'' @
     ''              }\<newline>'' @
     ''            }\<newline>'' @
     ''            tags\<newline>'' @
     ''            note\<newline>'' @
     ''            customerLocale\<newline>'' @
     ''            sourceIdentifier\<newline>'' @
     ''            sourceName\<newline>'' @
     ''          }\<newline>'' @
     ''        }\<newline>'' @
     ''      ''"

text \<open>
  \<^verbatim>\<open>if (!data.order) throw new Error(`Order not found with ID: ${orderId}`)\<close>, else
  \<^verbatim>\<open>return data.order\<close>.
\<close>

definition getOrderById_return :: "GetOrderByIdInput \<Rightarrow> jsval \<Rightarrow> JsError + jsval" where
  "getOrderById_return input data =
     bindE (getProp data ''order'') (\<lambda>order.
       if \<not> truthy order
       then Inl (Error (''Order not found with ID: '' @ orderId input))
       else getProp data ''order'')"

definition getOrderById_try :: "Network \<Rightarrow> Module \<Rightarrow> GetOrderByIdInput \<Rightarrow> (JsError, jsval) Run" where
  "getOrderById_try net m input =
     (let variables = [''id'' \<mapsto> JStr (orderId input)];
          (response, sent) = request net m GetOrderById_query variables
      in \<lparr>result = bindE response (getOrderById_return input),
          state = m, requests = sent\<rparr>)"

definition getOrderById_execute :: "Network \<Rightarrow> Module \<Rightarrow> GetOrderByIdInput \<Rightarrow> (JsError, jsval) Run" where
  "getOrderById_execute net m input =
     (let run = getOrderById_try net m input
      in \<lparr>result = rethrow ''Failed to fetch order: '' (result run),
          state = state run, requests = requests run\<rparr>)"

section \<open>Input schemas\<close>

text \<open>
  The schemas are built from zod's validators. A validator takes the raw value (a
  missing property is \<^verbatim>\<open>undefined\<close>) and answers with the parsed value or with an
  issue; of the issues zod would collect the model keeps the first.
\<close>

datatype ZodIssue = invalid_type | too_small | invalid_enum_value

text \<open>\<^verbatim>\<open>z.string()\<close>, \<^verbatim>\<open>z.number()\<close> (which refuses NaN) and \<^verbatim>\<open>z.boolean()\<close>.\<close>

fun z_string :: "jsval \<Rightarrow> ZodIssue + string" where
  "z_string (JStr s) = Inr s"
| "z_string v = Inl invalid_type"

fun z_number :: "jsval \<Rightarrow> ZodIssue + number" where
  "z_number (JNum NaN) = Inl invalid_type"
| "z_number (JNum n) = Inr n"
| "z_number v = Inl invalid_type"

fun z_boolean :: "jsval \<Rightarrow> ZodIssue + bool" where
  "z_boolean (JBool b) = Inr b"
| "z_boolean v = Inl invalid_type"

text \<open>\<^verbatim>\<open>.min(n)\<close> on a string validator.\<close>

definition z_min :: "nat \<Rightarrow> (jsval \<Rightarrow> ZodIssue + string) \<Rightarrow> jsval \<Rightarrow> ZodIssue + string" where
  "z_min n inner v = bindE (inner v) (\<lambda>s. if length s < n then Inl too_small else Inr s)"

text \<open>\<^verbatim>\<open>z.enum([...])\<close>\<close>

fun z_enum :: "string list \<Rightarrow> jsval \<Rightarrow> ZodIssue + string" where
  "z_enum options (JStr s) = (if s \<in> set options then Inr s else Inl invalid_enum_value)"
| "z_enum options v = Inl invalid_type"

text \<open>\<^verbatim>\<open>.optional()\<close>: \<^verbatim>\<open>undefined\<close> is accepted as it is.\<close>

definition z_optional :: "(jsval \<Rightarrow> ZodIssue + 'a) \<Rightarrow> jsval \<Rightarrow> ZodIssue + 'a option" where
  "z_optional inner v =
     (if v = JUndefined then Inr None else bindE (inner v) (\<lambda>x. Inr (Some x)))"

text \<open>
  \<^verbatim>\<open>.default(d)\<close>: \<^verbatim>\<open>undefined\<close> is replaced by the default before the inner validator
  runs. In \<^verbatim>\<open>z.boolean().optional().default(false)\<close> the inner \<^verbatim>\<open>.optional()\<close>
  therefore never meets \<^verbatim>\<open>undefined\<close> and the inferred type is plain
  \<^verbatim>\<open>boolean\<close>; the schemas below write such a field as the default of the base
  validator.
\<close>

definition z_default :: "jsval \<Rightarrow> (jsval \<Rightarrow> ZodIssue + 'a) \<Rightarrow> jsval \<Rightarrow> ZodIssue + 'a" where
  "z_default d inner v = inner (if v = JUndefined then d else v)"

text \<open>The property of a raw arguments object that \<^verbatim>\<open>z.object\<close> hands to a field.\<close>

definition ownProp :: "(string \<times> jsval) list \<Rightarrow> string \<Rightarrow> jsval" where
  "ownProp fs key = (case map_of fs key of None \<Rightarrow> JUndefined | Some v \<Rightarrow> v)"

definition OrderSortKeys :: "string list" where
  "OrderSortKeys =
     [''CREATED_AT'', ''CUSTOMER_NAME'', ''ID'', ''ORDER_NUMBER'', ''PROCESSED_AT'',
      ''TOTAL_PRICE'', ''UPDATED_AT'']"

text \<open>\<^verbatim>\<open>GetOrdersInputSchema\<close> of \<^verbatim>\<open>getOrders.ts\<close>.\<close>

definition GetOrdersInputSchema :: "jsval \<Rightarrow> ZodIssue + GetOrdersInput" where
  "GetOrdersInputSchema args =
     (case args of
        JObj fs \<Rightarrow>
          bindE (z_optional z_string (ownProp fs ''query'')) (\<lambda>q.
          bindE (z_default (JNum (Finite 10)) z_number (ownProp fs ''limit'')) (\<lambda>l.
          bindE (z_optional z_string (ownProp fs ''after'')) (\<lambda>a.
          bindE (z_optional z_string (ownProp fs ''before'')) (\<lambda>b.
          bindE (z_default (JBool False) z_boolean (ownProp fs ''reverse'')) (\<lambda>r.
          bindE (z_default (JStr ''PROCESSED_AT'') (z_enum OrderSortKeys) (ownProp fs ''sortKey'')) (\<lambda>k.
          Inr \<lparr>query = q, limit = l, after = a, before = b, reverse = r, sortKey = k\<rparr>))))))
      | _ \<Rightarrow> Inl invalid_type)"

text \<open>\<^verbatim>\<open>GetOrderByIdInputSchema\<close> of \<^verbatim>\<open>getOrderById.ts\<close>.\<close>

definition GetOrderByIdInputSchema :: "jsval \<Rightarrow> ZodIssue + GetOrderByIdInput" where
  "GetOrderByIdInputSchema args =
     (case args of
        JObj fs \<Rightarrow>
          bindE (z_min 1 z_string (ownProp fs ''orderId'')) (\<lambda>i. Inr \<lparr>orderId = i\<rparr>)
      | _ \<Rightarrow> Inl invalid_type)"

section \<open>The registrations of the two tools in the server\<close>

text \<open>
  The shape that the entry file writes out for \<^verbatim>\<open>get-orders\<close>, field by field as
  in the schema of the tool; \<^verbatim>\<open>get-order-by-id\<close> is registered with
  \<^verbatim>\<open>getOrderById.schema.shape\<close>.
\<close>

definition get_orders_shape :: "jsval \<Rightarrow> ZodIssue + GetOrdersInput" where
  "get_orders_shape args =
     (case args of
        JObj fs \<Rightarrow>
          bindE (z_optional z_string (ownProp fs ''query'')) (\<lambda>q.
          bindE (z_default (JNum (Finite 10)) z_number (ownProp fs ''limit'')) (\<lambda>l.
          bindE (z_optional z_string (ownProp fs ''after'')) (\<lambda>a.
          bindE (z_optional z_string (ownProp fs ''before'')) (\<lambda>b.
          bindE (z_default (JBool False) z_boolean (ownProp fs ''reverse'')) (\<lambda>r.
          bindE (z_default (JStr ''PROCESSED_AT'')
                   (z_enum [''CREATED_AT'', ''CUSTOMER_NAME'', ''ID'', ''ORDER_NUMBER'',
                            ''PROCESSED_AT'', ''TOTAL_PRICE'', ''UPDATED_AT''])
                   (ownProp fs ''sortKey'')) (\<lambda>k.
          Inr \<lparr>query = q, limit = l, after = a, before = b, reverse = r, sortKey = k\<rparr>))))))
      | _ \<Rightarrow> Inl invalid_type)"

text \<open>
  The result of a tool call, \<^verbatim>\<open>{ content: [{ type: "text", text: ... }] }\<close>: each
  entry is the pair of its type and its text.
\<close>

record CallToolResult =
  content :: "(string \<times> string) list"

text \<open>
  The callbacks: \<^verbatim>\<open>const result = await tool.execute(args)\<close>, then the result as
  text. \<^verbatim>\<open>JSON.stringify\<close> is a parameter.
\<close>

definition get_orders_callback ::
  "(GetOrdersResult \<Rightarrow> string) \<Rightarrow> Network \<Rightarrow> Module \<Rightarrow> GetOrdersInput \<Rightarrow> (JsError, CallToolResult) Run" where
  "get_orders_callback stringify net m args =
     (let run = getOrders_execute net m args
      in \<lparr>result = bindE (result run) (\<lambda>r. Inr \<lparr>content = [(''text'', stringify r)]\<rparr>),
          state = state run, requests = requests run\<rparr>)"

definition get_order_by_id_callback ::
  "(jsval \<Rightarrow> string) \<Rightarrow> Network \<Rightarrow> Module \<Rightarrow> GetOrderByIdInput \<Rightarrow> (JsError, CallToolResult) Run" where
  "get_order_by_id_callback stringify net m args =
     (let run = getOrderById_execute net m args
      in \<lparr>result = bindE (result run) (\<lambda>r. Inr \<lparr>content = [(''text'', stringify r)]\<rparr>),
          state = state run, requests = requests run\<rparr>)"

text \<open>
  Modelled from the spec: the dispatch of a registered tool, \<^verbatim>\<open>server.tool\<close> of the
  MCP SDK, which is not among the sources. The spec has each tool validate its input
  before anything else (``validates a small input object'', then ``fills a fixed query
  template's variables'', then ``issues one network call''): the raw arguments are parsed
  against the registered shape; a failed parse is the outcome of the call and the
  callback does not run; otherwise the callback runs on the parsed arguments.
\<close>

definition server_tool ::
  "(jsval \<Rightarrow> ZodIssue + 'a) \<Rightarrow> (Module \<Rightarrow> 'a \<Rightarrow> (JsError, 'r) Run) \<Rightarrow> Module \<Rightarrow> jsval
     \<Rightarrow> (ZodIssue + JsError, 'r) Run" where
  "server_tool shape callback m args =
     (case shape args of
        Inl issue \<Rightarrow> \<lparr>result = Inl (Inl issue), state = m, requests = []\<rparr>
      | Inr parsed \<Rightarrow>
          (let run = callback m parsed
           in \<lparr>result = (case result run of Inl e \<Rightarrow> Inl (Inr e) | Inr r \<Rightarrow> Inr r),
               state = state run, requests = requests run\<rparr>))"

definition get_orders_tool ::
  "(GetOrdersResult \<Rightarrow> string) \<Rightarrow> Network \<Rightarrow> Module \<Rightarrow> jsval \<Rightarrow> (ZodIssue + JsError, CallToolResult) Run" where
  "get_orders_tool stringify net m args =
     server_tool get_orders_shape (get_orders_callback stringify net) m args"

definition get_order_by_id_tool ::
  "(jsval \<Rightarrow> string) \<Rightarrow> Network \<Rightarrow> Module \<Rightarrow> jsval \<Rightarrow> (ZodIssue + JsError, CallToolResult) Run" where
  "get_order_by_id_tool stringify net m args =
     server_tool GetOrderByIdInputSchema (get_order_by_id_callback stringify net) m args"

section \<open>Reading a GraphQL document\<close>

text \<open>
  The characters GraphQL ignores between tokens, and the keyword a document starts with:
  \<^verbatim>\<open>query\<close>, \<^verbatim>\<open>mutation\<close> or \<^verbatim>\<open>subscription\<close>.
\<close>

definition ignored :: "char \<Rightarrow> bool" where
  "ignored c = (c = CHR '' '' \<or> c = CHR ''\<newline>'' \<or> c = CHR 0x09 \<or> c = CHR 0x0D \<or> c = CHR '','')"

definition operationKeyword :: "string \<Rightarrow> string" where
  "operationKeyword document =
     takeWhile (\<lambda>c. \<not> ignored c \<and> c \<noteq> CHR ''('' \<and> c \<noteq> CHR ''{'' \<and> c \<noteq> CHR ''@'')
       (dropWhile ignored document)"

section \<open>Sample clients, networks and responses\<close>

definition sampleClient :: GraphQLClient where
  "sampleClient =
     \<lparr>url = ''https://example.myshopify.com/admin/api/2025-01/graphql.json'',
      headers = [(''X-Shopify-Access-Token'', ''token''), (''Content-Type'', ''application/json'')]\<rparr>"

definition installed :: Module where
  "installed = initialize sampleClient \<lparr>shopifyClient = None\<rparr>"

definition sampleOrders :: jsval where
  "sampleOrders =
     JObj [(''orders'',
       JObj [(''pageInfo'',
                JObj [(''hasNextPage'', JBool True), (''hasPreviousPage'', JBool False),
                      (''startCursor'', JStr ''c1''), (''endCursor'', JStr ''c2'')]),
             (''edges'',
                JArr [JObj [(''cursor'', JStr ''c1''), (''node'', JObj [(''id'', JStr ''gid://shopify/Order/1'')])],
                      JObj [(''cursor'', JStr ''c2''), (''node'', JObj [(''id'', JStr ''gid://shopify/Order/2'')])]])])]"

definition sampleOrder :: jsval where
  "sampleOrder = JObj [(''order'', JObj [(''id'', JStr ''gid://shopify/Order/1''), (''name'', JStr ''#1001'')])]"

text \<open>A network that answers every request with the same response or error.\<close>

definition answering :: "JsError + jsval \<Rightarrow> Network" where
  "answering response = (\<lambda>client document variables. response)"

text \<open>A network that answers a request with an \<^verbatim>\<open>id\<close> by one order, any other by a page.\<close>

definition shop :: Network where
  "shop = (\<lambda>client document variables.
     case variables ''id'' of Some v \<Rightarrow> Inr sampleOrder | None \<Rightarrow> Inr sampleOrders)"

definition sampleOrdersResult :: GetOrdersResult where
  "sampleOrdersResult =
     \<lparr>orders = [JObj [(''id'', JStr ''gid://shopify/Order/1'')],
                JObj [(''id'', JStr ''gid://shopify/Order/2'')]],
      pageInfo = JObj [(''hasNextPage'', JBool True), (''hasPreviousPage'', JBool False),
                       (''startCursor'', JStr ''c1''), (''endCursor'', JStr ''c2'')],
      cursors = [JStr ''c1'', JStr ''c2'']\<rparr>"

definition firstPage :: GetOrdersInput where
  "firstPage =
     \<lparr>query = None, limit = Finite 10, after = None, before = None,
      reverse = False, sortKey = ''PROCESSED_AT''\<rparr>"

text \<open>A stand-in for \<^verbatim>\<open>JSON.stringify\<close> in the sample runs.\<close>

definition blank :: "'a \<Rightarrow> string" where
  "blank r = []"

section \<open>Runs of the two tools\<close>

text \<open>What a run requests and what it returns.\<close>

lemma request_installed:
  "shopifyClient m = Some c \<Longrightarrow> request net m d v = (net c d v, [(d, v)])"
  by (simp add: request_def)

lemma getOrders_execute_requests:
  "requests (getOrders_execute net m input) =
     (case shopifyClient m of None \<Rightarrow> []
      | Some c \<Rightarrow> [(GetOrders_query, getOrders_variables input)])"
  by (simp add: getOrders_execute_def getOrders_try_def request_def Let_def split: option.splits)

lemma getOrders_execute_result:
  "result (getOrders_execute net m input) =
     rethrow ''Failed to fetch orders: ''
       (bindE (fst (request net m GetOrders_query (getOrders_variables input))) getOrders_return)"
  by (simp add: getOrders_execute_def getOrders_try_def Let_def split: prod.splits)

lemma getOrderById_execute_requests:
  "requests (getOrderById_execute net m input) =
     (case shopifyClient m of None \<Rightarrow> []
      | Some c \<Rightarrow> [(GetOrderById_query, [''id'' \<mapsto> JStr (orderId input)])])"
  by (simp add: getOrderById_execute_def getOrderById_try_def request_def Let_def split: option.splits)

lemma getOrders_variables_id: "getOrders_variables input ''id'' = None"
  by (simp add: getOrders_variables_def getOrders_pagination_def getOrders_search_def Let_def)

lemma shop_getOrders: "shop client document (getOrders_variables input) = Inr sampleOrders"
  by (simp add: shop_def getOrders_variables_id)

lemma installed_client: "shopifyClient installed = Some sampleClient"
  by (simp add: installed_def initialize_def)

lemma getOrders_variables_truthy_before:
  assumes "before input = Some b" and "b \<noteq> []"
  shows "getOrders_variables input ''last'' = Some (JNum (limit input))"
    and "getOrders_variables input ''before'' = Some (JStr b)"
    and "getOrders_variables input ''first'' = None"
    and "getOrders_variables input ''after'' = None"
  using assms by (simp_all add: getOrders_variables_def getOrders_pagination_def getOrders_search_def)

lemma getOrders_variables_falsy_before:
  assumes "before input = None \<or> before input = Some []"
  shows "getOrders_variables input ''first'' = Some (JNum (limit input))"
    and "getOrders_variables input ''last'' = None"
    and "getOrders_variables input ''before'' = None"
    and "getOrders_variables input ''after'' =
           (case after input of None \<Rightarrow> None | Some a \<Rightarrow> if a = [] then None else Some (JStr a))"
  using assms
  by (auto simp add: getOrders_variables_def getOrders_pagination_def getOrders_search_def Let_def
        split: option.splits)

section \<open>Pagination and search variables of getOrders\<close>

text \<open>
  Claim C1, as amended. Whatever variables \<^verbatim>\<open>getOrders.execute\<close> passes to the client:
  with a non-empty \<^verbatim>\<open>before\<close> cursor they hold \<^verbatim>\<open>last = limit\<close> and that cursor, and
  neither \<^verbatim>\<open>first\<close> nor \<^verbatim>\<open>after\<close> (an \<^verbatim>\<open>after\<close> given as well is ignored); with
  \<^verbatim>\<open>before\<close> missing or empty they hold \<^verbatim>\<open>first = limit\<close>, hold \<^verbatim>\<open>after\<close> exactly
  when the input's \<^verbatim>\<open>after\<close> is a non-empty string, and hold neither \<^verbatim>\<open>last\<close> nor
  \<^verbatim>\<open>before\<close>. They never hold both \<^verbatim>\<open>first\<close> and \<^verbatim>\<open>last\<close>.
\<close>

theorem getOrders_pagination_sent:
  assumes "(document, variables) \<in> set (requests (getOrders_execute net m input))"
  shows "(before input = Some b \<and> b \<noteq> [] \<longrightarrow>
            variables ''last'' = Some (JNum (limit input)) \<and> variables ''before'' = Some (JStr b)
            \<and> variables ''first'' = None \<and> variables ''after'' = None)
       \<and> (before input = None \<or> before input = Some [] \<longrightarrow>
            variables ''first'' = Some (JNum (limit input))
            \<and> variables ''last'' = None \<and> variables ''before'' = None
            \<and> (after input = Some a \<and> a \<noteq> [] \<longrightarrow> variables ''after'' = Some (JStr a))
            \<and> (after input = None \<or> after input = Some [] \<longrightarrow> variables ''after'' = None))
       \<and> \<not> (variables ''first'' \<noteq> None \<and> variables ''last'' \<noteq> None)"
proof -
  from assms have v: "variables = getOrders_variables input"
    by (auto simp add: getOrders_execute_requests split: option.splits)
  have both: "\<not> (getOrders_variables input ''first'' \<noteq> None \<and> getOrders_variables input ''last'' \<noteq> None)"
  proof (cases "before input = None \<or> before input = Some []")
    case True
    then show ?thesis by (simp add: getOrders_variables_falsy_before(2))
  next
    case False
    then obtain c where "before input = Some c" and "c \<noteq> []" by (cases "before input") auto
    then show ?thesis by (simp add: getOrders_variables_truthy_before(3))
  qed
  show ?thesis
    unfolding v using both
    by (auto simp add: getOrders_variables_truthy_before getOrders_variables_falsy_before)
qed

text \<open>
  The theorem at two inputs: both cursors given (backward page, \<^verbatim>\<open>after\<close> dropped), and
  \<^verbatim>\<open>after\<close> alone (forward page).
\<close>

theorem getOrders_pagination_sent_witness:
  "getOrders_variables
     \<lparr>query = None, limit = Finite 5, after = Some ''c1'', before = Some ''c2'',
      reverse = False, sortKey = ''ID''\<rparr> ''last'' = Some (JNum (Finite 5))
   \<and> getOrders_variables
     \<lparr>query = None, limit = Finite 5, after = Some ''c1'', before = Some ''c2'',
      reverse = False, sortKey = ''ID''\<rparr> ''after'' = None
   \<and> getOrders_variables
     \<lparr>query = None, limit = Finite 5, after = Some ''c1'', before = None,
      reverse = False, sortKey = ''ID''\<rparr> ''first'' = Some (JNum (Finite 5))
   \<and> getOrders_variables
     \<lparr>query = None, limit = Finite 5, after = Some ''c1'', before = None,
      reverse = False, sortKey = ''ID''\<rparr> ''after'' = Some (JStr ''c1'')"
proof -
  let ?i1 = "\<lparr>query = None, limit = Finite 5, after = Some ''c1'', before = Some ''c2'',
      reverse = False, sortKey = ''ID''\<rparr>"
  let ?i2 = "\<lparr>query = None, limit = Finite 5, after = Some ''c1'', before = None,
      reverse = False, sortKey = ''ID''\<rparr>"
  have m1: "(GetOrders_query, getOrders_variables ?i1) \<in> set (requests (getOrders_execute shop installed ?i1))"
    by (simp add: getOrders_execute_requests installed_def initialize_def)
  have m2: "(GetOrders_query, getOrders_variables ?i2) \<in> set (requests (getOrders_execute shop installed ?i2))"
    by (simp add: getOrders_execute_requests installed_def initialize_def)
  from getOrders_pagination_sent [OF m1, of "''c2''" "''c1''"]
       getOrders_pagination_sent [OF m2, of "''c2''" "''c1''"]
  show ?thesis by simp
qed

text \<open>
  Claim C1 as first stated speaks of a \<^verbatim>\<open>before\<close> that is present. An empty string is
  present and passes the schema, yet \<^verbatim>\<open>if (before)\<close> takes it for absent: the request
  goes out with \<^verbatim>\<open>first\<close>, without \<^verbatim>\<open>last\<close> and without \<^verbatim>\<open>before\<close>.
\<close>

theorem getOrders_empty_before_counterexample:
  "before \<lparr>query = None, limit = Finite 10, after = None, before = Some '''',
      reverse = False, sortKey = ''PROCESSED_AT''\<rparr> \<noteq> None
   \<and> requests (getOrders_execute shop installed
        \<lparr>query = None, limit = Finite 10, after = None, before = Some '''',
         reverse = False, sortKey = ''PROCESSED_AT''\<rparr>)
      = [(GetOrders_query,
          [''reverse'' \<mapsto> JBool False, ''sortKey'' \<mapsto> JStr ''PROCESSED_AT'',
           ''first'' \<mapsto> JNum (Finite 10)])]
   \<and> [''reverse'' \<mapsto> JBool False, ''sortKey'' \<mapsto> JStr ''PROCESSED_AT'',
       ''first'' \<mapsto> JNum (Finite 10)] ''last'' = None
   \<and> [''reverse'' \<mapsto> JBool False, ''sortKey'' \<mapsto> JStr ''PROCESSED_AT'',
       ''first'' \<mapsto> JNum (Finite 10)] ''before'' = None"
  by (simp add: getOrders_execute_requests installed_def initialize_def
        getOrders_variables_def getOrders_pagination_def getOrders_search_def)

text \<open>
  Claim C10. \<^verbatim>\<open>getOrders.execute\<close> with the empty string as \<^verbatim>\<open>query\<close> behaves as with
  \<^verbatim>\<open>query\<close> omitted: the variables are equal and have no \<^verbatim>\<open>query\<close> field, and when
  the client answers the request in the same way the two runs are equal (result, state
  and requests).
\<close>

theorem getOrders_empty_query_same:
  assumes "\<forall>client. shopifyClient m = Some client \<longrightarrow>
             net1 client GetOrders_query (getOrders_variables (input\<lparr>query := None\<rparr>))
             = net2 client GetOrders_query (getOrders_variables (input\<lparr>query := None\<rparr>))"
  shows "getOrders_variables (input\<lparr>query := Some ''''\<rparr>) = getOrders_variables (input\<lparr>query := None\<rparr>)
       \<and> getOrders_variables (input\<lparr>query := Some ''''\<rparr>) ''query'' = None
       \<and> getOrders_variables (input\<lparr>query := None\<rparr>) ''query'' = None
       \<and> getOrders_execute net1 m (input\<lparr>query := Some ''''\<rparr>) = getOrders_execute net2 m (input\<lparr>query := None\<rparr>)"
proof -
  have eq: "getOrders_variables (input\<lparr>query := Some ''''\<rparr>) = getOrders_variables (input\<lparr>query := None\<rparr>)"
    by (simp add: getOrders_variables_def getOrders_pagination_def getOrders_search_def Let_def)
  have none: "getOrders_variables (input\<lparr>query := None\<rparr>) ''query'' = None"
    by (simp add: getOrders_variables_def getOrders_pagination_def getOrders_search_def Let_def)
  have run: "getOrders_execute net1 m (input\<lparr>query := Some ''''\<rparr>) = getOrders_execute net2 m (input\<lparr>query := None\<rparr>)"
    using assms
    by (cases "shopifyClient m")
       (simp_all add: getOrders_execute_def getOrders_try_def request_def eq)
  from eq none run show ?thesis by simp
qed

text \<open>The theorem at two networks that agree on the request.\<close>

theorem getOrders_empty_query_same_witness:
  "getOrders_execute shop installed
     \<lparr>query = Some '''', limit = Finite 10, after = None, before = None,
      reverse = False, sortKey = ''PROCESSED_AT''\<rparr>
   = getOrders_execute (answering (Inr sampleOrders)) installed
     \<lparr>query = None, limit = Finite 10, after = None, before = None,
      reverse = False, sortKey = ''PROCESSED_AT''\<rparr>"
proof -
  let ?i = "\<lparr>query = Some ''x'', limit = Finite 10, after = None, before = None,
      reverse = False, sortKey = ''PROCESSED_AT''\<rparr>"
  have h: "\<forall>client. shopifyClient installed = Some client \<longrightarrow>
             shop client GetOrders_query (getOrders_variables (?i\<lparr>query := None\<rparr>))
             = answering (Inr sampleOrders) client GetOrders_query (getOrders_variables (?i\<lparr>query := None\<rparr>))"
    by (simp add: shop_getOrders answering_def)
  from getOrders_empty_query_same
         [where m = installed and input = ?i and ?net1.0 = shop
            and ?net2.0 = "answering (Inr sampleOrders)", OF h]
  show ?thesis by simp
qed

section \<open>Sequencing and rethrowing\<close>

lemma bindE_Inr_iff: "bindE r f = Inr y \<longleftrightarrow> (\<exists>v. r = Inr v \<and> f v = Inr y)"
  by (cases r) (simp_all add: bindE_def)

lemma rethrow_Inr_iff: "rethrow prefix r = Inr v \<longleftrightarrow> r = Inr v"
  by (cases r) (simp_all add: rethrow_def)

lemma rethrow_Inl_iff:
  "rethrow prefix r = Inl x \<longleftrightarrow> (\<exists>e. r = Inl e \<and> x = Error (prefix @ message e))"
  by (cases r) (auto simp add: rethrow_def)

lemma mapE_Inr_all2:
  "mapE f xs = Inr ys \<Longrightarrow> list_all2 (\<lambda>x y. f x = Inr y) xs ys"
proof (induction xs arbitrary: ys)
  case Nil
  then show ?case by simp
next
  case (Cons x xs)
  from Cons.prems obtain y ys' where "f x = Inr y" and "mapE f xs = Inr ys'" and "ys = y # ys'"
    by (auto simp add: bindE_Inr_iff)
  with Cons.IH show ?case by simp
qed

lemma callMap_Inr:
  "callMap v src f = Inr ys \<Longrightarrow> \<exists>xs. v = JArr xs \<and> list_all2 (\<lambda>x y. f x = Inr y) xs ys"
  by (cases v) (auto dest: mapE_Inr_all2)

section \<open>The result of getOrders\<close>

lemma getOrders_return_Inr:
  assumes "getOrders_return data = Inr r"
  shows "\<exists>os edges. getProp data ''orders'' = Inr os
           \<and> getProp os ''edges'' = Inr (JArr edges)
           \<and> list_all2 (\<lambda>edge node. getProp edge ''node'' = Inr node) edges (orders r)
           \<and> getProp os ''pageInfo'' = Inr (pageInfo r)
           \<and> list_all2 (\<lambda>edge c. getProp edge ''cursor'' = Inr c) edges (cursors r)"
proof -
  from assms obtain os e1 nodes info cs where
      os: "getProp data ''orders'' = Inr os"
    and e1: "getProp os ''edges'' = Inr e1"
    and nodes: "callMap e1 ''data.orders.edges.map'' (\<lambda>edge. getProp edge ''node'') = Inr nodes"
    and info: "getProp os ''pageInfo'' = Inr info"
    and cs: "callMap e1 ''data.orders.edges.map'' (\<lambda>edge. getProp edge ''cursor'') = Inr cs"
    and r: "r = \<lparr>orders = nodes, pageInfo = info, cursors = cs\<rparr>"
    unfolding getOrders_return_def bindE_Inr_iff by auto
  from callMap_Inr [OF nodes] obtain edges where
      edges: "e1 = JArr edges"
    and n2: "list_all2 (\<lambda>edge node. getProp edge ''node'' = Inr node) edges nodes"
    by blast
  from callMap_Inr [OF cs] edges
  have c2: "list_all2 (\<lambda>edge c. getProp edge ''cursor'' = Inr c) edges cs"
    by auto
  from os e1 edges n2 info c2 r show ?thesis by simp
qed

text \<open>
  Claim C2. When \<^verbatim>\<open>getOrders.execute\<close> returns, a client was installed and answered
  with response data whose \<^verbatim>\<open>orders.edges\<close> is an array; the returned object has the
  three fields \<^verbatim>\<open>orders\<close>, \<^verbatim>\<open>pageInfo\<close> and \<^verbatim>\<open>cursors\<close>, where \<^verbatim>\<open>orders\<close> lists
  the \<^verbatim>\<open>node\<close> of each edge and \<^verbatim>\<open>cursors\<close> the \<^verbatim>\<open>cursor\<close> of each edge, both in
  the order of the edges (so they are equally long and correspond index by index), and
  \<^verbatim>\<open>pageInfo\<close> is \<^verbatim>\<open>orders.pageInfo\<close> of the response, unchanged.
\<close>

theorem getOrders_result_flattened:
  assumes "result (getOrders_execute net m input) = Inr r"
  shows "\<exists>client data os edges.
           shopifyClient m = Some client
         \<and> net client GetOrders_query (getOrders_variables input) = Inr data
         \<and> getProp data ''orders'' = Inr os
         \<and> getProp os ''edges'' = Inr (JArr edges)
         \<and> list_all2 (\<lambda>edge node. getProp edge ''node'' = Inr node) edges (orders r)
         \<and> list_all2 (\<lambda>edge c. getProp edge ''cursor'' = Inr c) edges (cursors r)
         \<and> getProp os ''pageInfo'' = Inr (pageInfo r)
         \<and> length (orders r) = length (cursors r)
         \<and> (\<forall>i < length (orders r).
               getProp (edges ! i) ''node'' = Inr (orders r ! i)
             \<and> getProp (edges ! i) ''cursor'' = Inr (cursors r ! i))"
proof -
  from assms obtain data where
      resp: "fst (request net m GetOrders_query (getOrders_variables input)) = Inr data"
    and ret: "getOrders_return data = Inr r"
    by (auto simp add: getOrders_execute_result rethrow_Inr_iff bindE_Inr_iff)
  from resp obtain client where
      client: "shopifyClient m = Some client"
    and net: "net client GetOrders_query (getOrders_variables input) = Inr data"
    by (cases "shopifyClient m") (simp_all add: request_def)
  from getOrders_return_Inr [OF ret] obtain os edges where
      os: "getProp data ''orders'' = Inr os"
    and edges: "getProp os ''edges'' = Inr (JArr edges)"
    and nodes: "list_all2 (\<lambda>edge node. getProp edge ''node'' = Inr node) edges (orders r)"
    and info: "getProp os ''pageInfo'' = Inr (pageInfo r)"
    and cs: "list_all2 (\<lambda>edge c. getProp edge ''cursor'' = Inr c) edges (cursors r)"
    by blast
  from list_all2_lengthD [OF nodes] list_all2_lengthD [OF cs]
  have len: "length (orders r) = length edges" "length (cursors r) = length edges"
    by simp_all
  from nodes cs len have idx: "\<forall>i < length (orders r).
               getProp (edges ! i) ''node'' = Inr (orders r ! i)
             \<and> getProp (edges ! i) ''cursor'' = Inr (cursors r ! i)"
    by (simp add: list_all2_conv_all_nth)
  from client net os edges nodes cs info len idx show ?thesis by auto
qed

text \<open>The run on the sample page of two orders.\<close>

lemma sampleOrders_run:
  "result (getOrders_execute shop installed firstPage) = Inr sampleOrdersResult"
  by (simp add: getOrders_execute_result request_def installed_def initialize_def shop_getOrders
        rethrow_def bindE_def getOrders_return_def sampleOrders_def sampleOrdersResult_def)

text \<open>The theorem at the sample page.\<close>

theorem getOrders_result_flattened_witness:
  "\<exists>client data os edges.
     shopifyClient installed = Some client
   \<and> shop client GetOrders_query (getOrders_variables firstPage) = Inr data
   \<and> getProp data ''orders'' = Inr os
   \<and> getProp os ''edges'' = Inr (JArr edges)
   \<and> list_all2 (\<lambda>edge node. getProp edge ''node'' = Inr node) edges (orders sampleOrdersResult)
   \<and> list_all2 (\<lambda>edge c. getProp edge ''cursor'' = Inr c) edges (cursors sampleOrdersResult)
   \<and> getProp os ''pageInfo'' = Inr (pageInfo sampleOrdersResult)
   \<and> length (orders sampleOrdersResult) = length (cursors sampleOrdersResult)
   \<and> (\<forall>i < length (orders sampleOrdersResult).
         getProp (edges ! i) ''node'' = Inr (orders sampleOrdersResult ! i)
       \<and> getProp (edges ! i) ''cursor'' = Inr (cursors sampleOrdersResult ! i))"
  by (rule getOrders_result_flattened [OF sampleOrders_run])

section \<open>Errors of the two tools\<close>

lemma getOrders_try_result:
  "result (getOrders_try net m input) =
     bindE (fst (request net m GetOrders_query (getOrders_variables input))) getOrders_return"
  by (simp add: getOrders_try_def split: prod.splits)

lemma getOrders_try_requests:
  "requests (getOrders_try net m input) = requests (getOrders_execute net m input)"
  by (simp add: getOrders_execute_def Let_def)

lemma getOrderById_try_result:
  "result (getOrderById_try net m input) =
     bindE (fst (request net m GetOrderById_query [''id'' \<mapsto> JStr (orderId input)]))
       (getOrderById_return input)"
  by (simp add: getOrderById_try_def split: prod.splits)

lemma getOrderById_try_requests:
  "requests (getOrderById_try net m input) = requests (getOrderById_execute net m input)"
  by (simp add: getOrderById_execute_def Let_def)

lemma getOrders_execute_rethrow:
  "result (getOrders_execute net m input) =
     rethrow ''Failed to fetch orders: '' (result (getOrders_try net m input))"
  by (simp add: getOrders_execute_def Let_def)

lemma getOrderById_execute_rethrow:
  "result (getOrderById_execute net m input) =
     rethrow ''Failed to fetch order: '' (result (getOrderById_try net m input))"
  by (simp add: getOrderById_execute_def Let_def)

lemma requests_at_most_one:
  "length (requests (getOrders_execute net m input)) \<le> 1"
  "length (requests (getOrderById_execute net' m' input')) \<le> 1"
  by (simp_all add: getOrders_execute_requests getOrderById_execute_requests split: option.splits)

text \<open>
  Claim C3. Whatever the body of \<^verbatim>\<open>try\<close> throws (the error of the client among them),
  \<^verbatim>\<open>getOrders.execute\<close> throws an \<^verbatim>\<open>Error\<close> whose message is
  \<^verbatim>\<open>Failed to fetch orders: \<close> followed by the message of what was thrown, and
  \<^verbatim>\<open>getOrderById.execute\<close> one whose message is \<^verbatim>\<open>Failed to fetch order: \<close> followed
  by that message; nothing else is ever thrown. A run that throws returns no value, and
  the handler sends nothing: the requests are those of the body, at most one.
\<close>

theorem execute_rethrows_prefixed:
  "(result (getOrders_try net m input) = Inl e \<longrightarrow>
      result (getOrders_execute net m input) = Inl (Error (''Failed to fetch orders: '' @ message e)))
 \<and> (result (getOrderById_try net' m' input') = Inl e' \<longrightarrow>
      result (getOrderById_execute net' m' input') = Inl (Error (''Failed to fetch order: '' @ message e')))
 \<and> (shopifyClient m = Some client \<and> net client GetOrders_query (getOrders_variables input) = Inl e \<longrightarrow>
      result (getOrders_execute net m input) = Inl (Error (''Failed to fetch orders: '' @ message e)))
 \<and> (shopifyClient m' = Some client' \<and> net' client' GetOrderById_query [''id'' \<mapsto> JStr (orderId input')] = Inl e' \<longrightarrow>
      result (getOrderById_execute net' m' input') = Inl (Error (''Failed to fetch order: '' @ message e')))
 \<and> (result (getOrders_execute net m input) = Inl x \<longrightarrow>
      (\<exists>e0. result (getOrders_try net m input) = Inl e0 \<and> x = Error (''Failed to fetch orders: '' @ message e0)))
 \<and> (result (getOrderById_execute net' m' input') = Inl x' \<longrightarrow>
      (\<exists>e0. result (getOrderById_try net' m' input') = Inl e0 \<and> x' = Error (''Failed to fetch order: '' @ message e0)))
 \<and> requests (getOrders_execute net m input) = requests (getOrders_try net m input)
 \<and> requests (getOrderById_execute net' m' input') = requests (getOrderById_try net' m' input')
 \<and> length (requests (getOrders_execute net m input)) \<le> 1
 \<and> length (requests (getOrderById_execute net' m' input')) \<le> 1"
proof -
  have a: "result (getOrders_try net m input) = Inl e \<longrightarrow>
      result (getOrders_execute net m input) = Inl (Error (''Failed to fetch orders: '' @ message e))"
    by (simp add: getOrders_execute_rethrow rethrow_def)
  have b: "result (getOrderById_try net' m' input') = Inl e' \<longrightarrow>
      result (getOrderById_execute net' m' input') = Inl (Error (''Failed to fetch order: '' @ message e'))"
    by (simp add: getOrderById_execute_rethrow rethrow_def)
  have c: "shopifyClient m = Some client \<and> net client GetOrders_query (getOrders_variables input) = Inl e \<longrightarrow>
      result (getOrders_execute net m input) = Inl (Error (''Failed to fetch orders: '' @ message e))"
    by (simp add: getOrders_execute_rethrow getOrders_try_result request_installed bindE_def rethrow_def)
  have d: "shopifyClient m' = Some client' \<and> net' client' GetOrderById_query [''id'' \<mapsto> JStr (orderId input')] = Inl e' \<longrightarrow>
      result (getOrderById_execute net' m' input') = Inl (Error (''Failed to fetch order: '' @ message e'))"
    by (simp add: getOrderById_execute_rethrow getOrderById_try_result request_installed bindE_def rethrow_def)
  have e: "result (getOrders_execute net m input) = Inl x \<longrightarrow>
      (\<exists>e0. result (getOrders_try net m input) = Inl e0 \<and> x = Error (''Failed to fetch orders: '' @ message e0))"
    by (simp add: getOrders_execute_rethrow rethrow_Inl_iff)
  have f: "result (getOrderById_execute net' m' input') = Inl x' \<longrightarrow>
      (\<exists>e0. result (getOrderById_try net' m' input') = Inl e0 \<and> x' = Error (''Failed to fetch order: '' @ message e0))"
    by (simp add: getOrderById_execute_rethrow rethrow_Inl_iff)
  have g: "requests (getOrders_execute net m input) = requests (getOrders_try net m input)"
    by (simp add: getOrders_try_requests)
  have h: "requests (getOrderById_execute net' m' input') = requests (getOrderById_try net' m' input')"
    by (simp add: getOrderById_try_requests)
  note i = requests_at_most_one(1) [of net m input]
  note j = requests_at_most_one(2) [of net' m' input']
  show ?thesis
    by (intro conjI) (rule a b c d e f g h i j)+
qed

text \<open>The theorem at a client that fails with an API error, and at one that fails in transport.\<close>

theorem execute_rethrows_prefixed_witness:
  "result (getOrders_execute (answering (Inl (ClientError ''GraphQL Error (Code: 401)''))) installed firstPage)
     = Inl (Error ''Failed to fetch orders: GraphQL Error (Code: 401)'')
 \<and> result (getOrderById_execute (answering (Inl (TypeError ''fetch failed''))) installed
       \<lparr>orderId = ''gid://shopify/Order/1''\<rparr>)
     = Inl (Error ''Failed to fetch order: fetch failed'')"
proof -
  have c: "shopifyClient installed = Some sampleClient"
    by (simp add: installed_def initialize_def)
  have n1: "answering (Inl (ClientError ''GraphQL Error (Code: 401)'')) sampleClient GetOrders_query
              (getOrders_variables firstPage) = Inl (ClientError ''GraphQL Error (Code: 401)'')"
    by (simp add: answering_def)
  have n2: "answering (Inl (TypeError ''fetch failed'')) sampleClient GetOrderById_query
              [''id'' \<mapsto> JStr (orderId \<lparr>orderId = ''gid://shopify/Order/1''\<rparr>)] = Inl (TypeError ''fetch failed'')"
    by (simp add: answering_def)
  from execute_rethrows_prefixed
         [where m = installed and client = sampleClient and input = firstPage
            and net = "answering (Inl (ClientError ''GraphQL Error (Code: 401)''))"
            and e = "ClientError ''GraphQL Error (Code: 401)''"
            and m' = installed and client' = sampleClient
            and input' = "\<lparr>orderId = ''gid://shopify/Order/1''\<rparr>"
            and net' = "answering (Inl (TypeError ''fetch failed''))"
            and e' = "TypeError ''fetch failed''"]
       c n1 n2
  show ?thesis by simp
qed

text \<open>
  Claim C4. When the \<^verbatim>\<open>order\<close> field of the response is \<^verbatim>\<open>null\<close> or absent,
  \<^verbatim>\<open>getOrderById.execute\<close> throws the \<^verbatim>\<open>Error\<close> with the message
  \<^verbatim>\<open>Failed to fetch order: Order not found with ID: \<close> followed by the given id; when
  it is an object (more generally, any truthy value) that object is returned unchanged.
  No run returns \<^verbatim>\<open>null\<close> or \<^verbatim>\<open>undefined\<close>.
\<close>

theorem getOrderById_found_or_thrown:
  "(shopifyClient m = Some client
      \<and> net client GetOrderById_query [''id'' \<mapsto> JStr (orderId input)] = Inr data
      \<and> (getProp data ''order'' = Inr JNull \<or> getProp data ''order'' = Inr JUndefined) \<longrightarrow>
    result (getOrderById_execute net m input)
      = Inl (Error (''Failed to fetch order: '' @ ''Order not found with ID: '' @ orderId input)))
 \<and> (shopifyClient m = Some client
      \<and> net client GetOrderById_query [''id'' \<mapsto> JStr (orderId input)] = Inr data
      \<and> getProp data ''order'' = Inr (JObj fs) \<longrightarrow>
    result (getOrderById_execute net m input) = Inr (JObj fs))
 \<and> (shopifyClient m = Some client
      \<and> net client GetOrderById_query [''id'' \<mapsto> JStr (orderId input)] = Inr data
      \<and> getProp data ''order'' = Inr v \<and> truthy v \<longrightarrow>
    result (getOrderById_execute net m input) = Inr v)
 \<and> result (getOrderById_execute net m input) \<noteq> Inr JNull
 \<and> result (getOrderById_execute net m input) \<noteq> Inr JUndefined"
proof -
  have ret: "getOrderById_return input d = Inr w \<Longrightarrow> truthy w" for d w
    by (auto simp add: getOrderById_return_def bindE_Inr_iff split: if_splits)
  have never: "result (getOrderById_execute net m input) = Inr w \<Longrightarrow> truthy w" for w
    by (auto simp add: getOrderById_execute_rethrow getOrderById_try_result rethrow_Inr_iff
          bindE_Inr_iff dest: ret)
  from never [of JNull] never [of JUndefined]
  have n: "result (getOrderById_execute net m input) \<noteq> Inr JNull"
          "result (getOrderById_execute net m input) \<noteq> Inr JUndefined"
    by auto
  show ?thesis
    using n
    by (auto simp add: getOrderById_execute_rethrow getOrderById_try_result request_installed
          getOrderById_return_def bindE_def rethrow_def)
qed

text \<open>The theorem at a response without the order, and at one with it.\<close>

theorem getOrderById_found_or_thrown_witness:
  "result (getOrderById_execute (answering (Inr (JObj [(''order'', JNull)]))) installed
      \<lparr>orderId = ''gid://shopify/Order/9''\<rparr>)
     = Inl (Error ''Failed to fetch order: Order not found with ID: gid://shopify/Order/9'')
 \<and> result (getOrderById_execute shop installed \<lparr>orderId = ''gid://shopify/Order/1''\<rparr>)
     = Inr (JObj [(''id'', JStr ''gid://shopify/Order/1''), (''name'', JStr ''#1001'')])"
proof -
  have n1: "answering (Inr (JObj [(''order'', JNull)])) sampleClient GetOrderById_query
              [''id'' \<mapsto> JStr (orderId \<lparr>orderId = ''gid://shopify/Order/9''\<rparr>)]
            = Inr (JObj [(''order'', JNull)])"
    by (simp add: answering_def)
  have p1: "getProp (JObj [(''order'', JNull)]) ''order'' = Inr JNull"
    by simp
  have n2: "shop sampleClient GetOrderById_query
              [''id'' \<mapsto> JStr (orderId \<lparr>orderId = ''gid://shopify/Order/1''\<rparr>)]
            = Inr sampleOrder"
    by (simp add: shop_def)
  have p2: "getProp sampleOrder ''order''
            = Inr (JObj [(''id'', JStr ''gid://shopify/Order/1''), (''name'', JStr ''#1001'')])"
    by (simp add: sampleOrder_def)
  from getOrderById_found_or_thrown
         [where m = installed and client = sampleClient
            and net = "answering (Inr (JObj [(''order'', JNull)]))"
            and input = "\<lparr>orderId = ''gid://shopify/Order/9''\<rparr>"
            and data = "JObj [(''order'', JNull)]"]
       getOrderById_found_or_thrown
         [where m = installed and client = sampleClient and net = shop
            and input = "\<lparr>orderId = ''gid://shopify/Order/1''\<rparr>"
            and data = sampleOrder
            and fs = "[(''id'', JStr ''gid://shopify/Order/1''), (''name'', JStr ''#1001'')]"]
       installed_client n1 p1 n2 p2
  show ?thesis by simp
qed

section \<open>One request for each run, and no state\<close>

text \<open>
  Claim C6. With a client installed (as after \<^verbatim>\<open>initialize\<close>) each run of
  \<^verbatim>\<open>getOrders.execute\<close> and of \<^verbatim>\<open>getOrderById.execute\<close> makes exactly one request,
  whatever the input and whatever the client answers; a run that returns a result has
  made exactly one; no run makes more than one.
\<close>

theorem execute_requests_once:
  "(shopifyClient m = Some client \<longrightarrow> length (requests (getOrders_execute net m input)) = 1)
 \<and> (shopifyClient m' = Some client' \<longrightarrow> length (requests (getOrderById_execute net' m' input')) = 1)
 \<and> length (requests (getOrders_execute net (initialize client m) input)) = 1
 \<and> length (requests (getOrderById_execute net' (initialize client' m') input')) = 1
 \<and> (result (getOrders_execute net m input) = Inr r \<longrightarrow>
      length (requests (getOrders_execute net m input)) = 1)
 \<and> (result (getOrderById_execute net' m' input') = Inr r' \<longrightarrow>
      length (requests (getOrderById_execute net' m' input')) = 1)
 \<and> length (requests (getOrders_execute net m input)) \<le> 1
 \<and> length (requests (getOrderById_execute net' m' input')) \<le> 1"
proof -
  have a: "shopifyClient m = Some client \<longrightarrow> length (requests (getOrders_execute net m input)) = 1"
    by (simp add: getOrders_execute_requests)
  have b: "shopifyClient m' = Some client' \<longrightarrow> length (requests (getOrderById_execute net' m' input')) = 1"
    by (simp add: getOrderById_execute_requests)
  have c: "length (requests (getOrders_execute net (initialize client m) input)) = 1"
    by (simp add: getOrders_execute_requests initialize_def)
  have d: "length (requests (getOrderById_execute net' (initialize client' m') input')) = 1"
    by (simp add: getOrderById_execute_requests initialize_def)
  have e: "result (getOrders_execute net m input) = Inr r \<longrightarrow>
      length (requests (getOrders_execute net m input)) = 1"
    by (cases "shopifyClient m")
       (simp_all add: getOrders_execute_requests getOrders_execute_rethrow getOrders_try_result
          request_def bindE_def rethrow_def)
  have f: "result (getOrderById_execute net' m' input') = Inr r' \<longrightarrow>
      length (requests (getOrderById_execute net' m' input')) = 1"
    by (cases "shopifyClient m'")
       (simp_all add: getOrderById_execute_requests getOrderById_execute_rethrow
          getOrderById_try_result request_def bindE_def rethrow_def)
  note g = requests_at_most_one(1) [of net m input]
  note h = requests_at_most_one(2) [of net' m' input']
  show ?thesis
    by (intro conjI) (rule a b c d e f g h)+
qed

text \<open>The theorem at a run that succeeds and at a run whose client fails.\<close>

theorem execute_requests_once_witness:
  "length (requests (getOrders_execute shop installed firstPage)) = 1
 \<and> length (requests (getOrderById_execute (answering (Inl (ClientError ''GraphQL Error (Code: 401)'')))
       installed \<lparr>orderId = ''gid://shopify/Order/1''\<rparr>)) = 1"
  using execute_requests_once
          [where m = installed and client = sampleClient and net = shop and input = firstPage
             and m' = installed and client' = sampleClient
             and net' = "answering (Inl (ClientError ''GraphQL Error (Code: 401)''))"
             and input' = "\<lparr>orderId = ''gid://shopify/Order/1''\<rparr>"]
        installed_client
  by simp

text \<open>
  Claim C8. A run of either tool leaves the module state as it found it; two runs on
  the same input whose request gets the same answer are equal; and a run after an earlier
  run is the run it would have been without the earlier one.
\<close>

theorem execute_stateless_deterministic:
  "state (getOrders_execute net m input) = m
 \<and> state (getOrderById_execute net' m' input') = m'
 \<and> ((\<forall>client. shopifyClient m = Some client \<longrightarrow>
         net1 client GetOrders_query (getOrders_variables input)
         = net2 client GetOrders_query (getOrders_variables input)) \<longrightarrow>
      getOrders_execute net1 m input = getOrders_execute net2 m input)
 \<and> ((\<forall>client. shopifyClient m' = Some client \<longrightarrow>
         net1' client GetOrderById_query [''id'' \<mapsto> JStr (orderId input')]
         = net2' client GetOrderById_query [''id'' \<mapsto> JStr (orderId input')]) \<longrightarrow>
      getOrderById_execute net1' m' input' = getOrderById_execute net2' m' input')
 \<and> getOrders_execute net (state (getOrders_execute net0 m input0)) input
      = getOrders_execute net m input
 \<and> getOrderById_execute net' (state (getOrderById_execute net0' m' input0')) input'
      = getOrderById_execute net' m' input'"
proof -
  have a: "state (getOrders_execute net m input) = m" for net input
    by (simp add: getOrders_execute_def getOrders_try_def Let_def split: prod.splits)
  have b: "state (getOrderById_execute net' m' input') = m'" for net' input'
    by (simp add: getOrderById_execute_def getOrderById_try_def Let_def split: prod.splits)
  have c: "(\<forall>client. shopifyClient m = Some client \<longrightarrow>
         net1 client GetOrders_query (getOrders_variables input)
         = net2 client GetOrders_query (getOrders_variables input)) \<longrightarrow>
      getOrders_execute net1 m input = getOrders_execute net2 m input"
    by (cases "shopifyClient m")
       (simp_all add: getOrders_execute_def getOrders_try_def request_def)
  have d: "(\<forall>client. shopifyClient m' = Some client \<longrightarrow>
         net1' client GetOrderById_query [''id'' \<mapsto> JStr (orderId input')]
         = net2' client GetOrderById_query [''id'' \<mapsto> JStr (orderId input')]) \<longrightarrow>
      getOrderById_execute net1' m' input' = getOrderById_execute net2' m' input'"
    by (cases "shopifyClient m'")
       (simp_all add: getOrderById_execute_def getOrderById_try_def request_def)
  have e: "getOrders_execute net (state (getOrders_execute net0 m input0)) input
      = getOrders_execute net m input"
    by (simp add: a)
  have f: "getOrderById_execute net' (state (getOrderById_execute net0' m' input0')) input'
      = getOrderById_execute net' m' input'"
    by (simp add: b)
  show ?thesis
    by (intro conjI) (rule a b c d e f)+
qed

text \<open>The theorem at two different networks that agree on the request made.\<close>

theorem execute_stateless_deterministic_witness:
  "getOrders_execute shop installed firstPage
     = getOrders_execute (answering (Inr sampleOrders)) installed firstPage
 \<and> getOrderById_execute shop installed \<lparr>orderId = ''gid://shopify/Order/1''\<rparr>
     = getOrderById_execute (answering (Inr sampleOrder)) installed \<lparr>orderId = ''gid://shopify/Order/1''\<rparr>"
proof -
  have h1: "\<forall>client. shopifyClient installed = Some client \<longrightarrow>
         shop client GetOrders_query (getOrders_variables firstPage)
         = answering (Inr sampleOrders) client GetOrders_query (getOrders_variables firstPage)"
    by (simp add: shop_getOrders answering_def)
  have h2: "\<forall>client. shopifyClient installed = Some client \<longrightarrow>
         shop client GetOrderById_query [''id'' \<mapsto> JStr (orderId \<lparr>orderId = ''gid://shopify/Order/1''\<rparr>)]
         = answering (Inr sampleOrder) client GetOrderById_query
             [''id'' \<mapsto> JStr (orderId \<lparr>orderId = ''gid://shopify/Order/1''\<rparr>)]"
    by (simp add: shop_def answering_def)
  from execute_stateless_deterministic
         [where m = installed and input = firstPage and ?net1.0 = shop
            and ?net2.0 = "answering (Inr sampleOrders)"
            and m' = installed and input' = "\<lparr>orderId = ''gid://shopify/Order/1''\<rparr>"
            and net1' = shop and net2' = "answering (Inr sampleOrder)"]
       h1 h2
  show ?thesis by blast
qed

section \<open>The documents\<close>

lemma operationKeyword_query:
  "operationKeyword
     (''\<newline>'' @
      (CHR '' '' # CHR '' '' # CHR '' '' # CHR '' '' # CHR '' '' # CHR '' '' # CHR '' '' # CHR '' '' #
       CHR ''q'' # CHR ''u'' # CHR ''e'' # CHR ''r'' # CHR ''y'' # CHR '' '' # name) @ rest)
   = ''query''"
  by (simp add: operationKeyword_def ignored_def)

lemma GetOrders_query_keyword: "operationKeyword GetOrders_query = ''query''"
  unfolding GetOrders_query_def by (rule operationKeyword_query)

lemma GetOrderById_query_keyword: "operationKeyword GetOrderById_query = ''query''"
  unfolding GetOrderById_query_def by (rule operationKeyword_query)

text \<open>
  Claim C5. Every request of \<^verbatim>\<open>getOrders.execute\<close> carries the one document
  \<open>GetOrders_query\<close>, and every request of \<^verbatim>\<open>getOrderById.execute\<close> the one document
  \<open>GetOrderById_query\<close>: the input reaches the variables only, so any two inputs send
  the same document. Both documents start with the keyword \<^verbatim>\<open>query\<close>; neither is a
  mutation.
\<close>

theorem documents_fixed_queries:
  "((document, variables) \<in> set (requests (getOrders_execute net m input)) \<longrightarrow>
      document = GetOrders_query \<and> variables = getOrders_variables input)
 \<and> ((document', variables') \<in> set (requests (getOrderById_execute net' m' input')) \<longrightarrow>
      document' = GetOrderById_query \<and> variables' = [''id'' \<mapsto> JStr (orderId input')])
 \<and> (shopifyClient m = Some client \<longrightarrow>
      map fst (requests (getOrders_execute net m input)) = [GetOrders_query])
 \<and> (shopifyClient m' = Some client' \<longrightarrow>
      map fst (requests (getOrderById_execute net' m' input')) = [GetOrderById_query])
 \<and> map fst (requests (getOrders_execute net m input))
      = map fst (requests (getOrders_execute net m input2))
 \<and> map fst (requests (getOrderById_execute net' m' input'))
      = map fst (requests (getOrderById_execute net' m' input2'))
 \<and> operationKeyword GetOrders_query = ''query''
 \<and> operationKeyword GetOrderById_query = ''query''"
proof -
  have a: "(document, variables) \<in> set (requests (getOrders_execute net m input)) \<longrightarrow>
      document = GetOrders_query \<and> variables = getOrders_variables input"
    by (simp add: getOrders_execute_requests split: option.splits)
  have b: "(document', variables') \<in> set (requests (getOrderById_execute net' m' input')) \<longrightarrow>
      document' = GetOrderById_query \<and> variables' = [''id'' \<mapsto> JStr (orderId input')]"
    by (auto simp add: getOrderById_execute_requests split: option.splits)
  have c: "shopifyClient m = Some client \<longrightarrow>
      map fst (requests (getOrders_execute net m input)) = [GetOrders_query]"
    by (simp add: getOrders_execute_requests)
  have d: "shopifyClient m' = Some client' \<longrightarrow>
      map fst (requests (getOrderById_execute net' m' input')) = [GetOrderById_query]"
    by (simp add: getOrderById_execute_requests)
  have e: "map fst (requests (getOrders_execute net m input))
      = map fst (requests (getOrders_execute net m input2))"
    by (simp add: getOrders_execute_requests split: option.splits)
  have f: "map fst (requests (getOrderById_execute net' m' input'))
      = map fst (requests (getOrderById_execute net' m' input2'))"
    by (simp add: getOrderById_execute_requests split: option.splits)
  show ?thesis
    by (intro conjI) (rule a b c d e f GetOrders_query_keyword GetOrderById_query_keyword)+
qed

text \<open>The theorem at the installed client.\<close>

theorem documents_fixed_queries_witness:
  "map fst (requests (getOrders_execute shop installed firstPage)) = [GetOrders_query]
 \<and> map fst (requests (getOrderById_execute shop installed \<lparr>orderId = ''gid://shopify/Order/1''\<rparr>))
      = [GetOrderById_query]"
  using documents_fixed_queries
          [where m = installed and client = sampleClient and net = shop and input = firstPage
             and m' = installed and client' = sampleClient and net' = shop
             and input' = "\<lparr>orderId = ''gid://shopify/Order/1''\<rparr>"]
        installed_client
  by blast

section \<open>Validation before execution\<close>

lemma get_orders_shape_schema: "get_orders_shape args = GetOrdersInputSchema args"
  unfolding get_orders_shape_def GetOrdersInputSchema_def OrderSortKeys_def by (rule refl)

lemma bindE_fails: "(\<And>v. \<exists>e. f v = Inl e) \<Longrightarrow> \<exists>e. bindE r f = Inl e"
  by (cases r) (simp_all add: bindE_def)

lemma empty_orderId_rejected:
  "map_of fs ''orderId'' = Some (JStr []) \<Longrightarrow> GetOrderByIdInputSchema (JObj fs) = Inl too_small"
  by (simp add: GetOrderByIdInputSchema_def ownProp_def z_min_def bindE_def)

lemma z_enum_outside:
  "v \<noteq> JUndefined \<Longrightarrow> v \<notin> JStr ` set options \<Longrightarrow> \<exists>e. z_default d (z_enum options) v = Inl e"
  by (cases v) (auto simp add: z_default_def)

lemma bad_sortKey_rejected:
  assumes "map_of fs ''sortKey'' = Some v" and "v \<noteq> JUndefined" and "v \<notin> JStr ` set OrderSortKeys"
  shows "\<exists>issue. get_orders_shape (JObj fs) = Inl issue"
proof -
  from assms have k: "ownProp fs ''sortKey'' = v"
    by (simp add: ownProp_def)
  from z_enum_outside [OF assms(2,3)] obtain e where
    e: "z_default (JStr ''PROCESSED_AT'') (z_enum OrderSortKeys) v = Inl e"
    by blast
  show ?thesis
    unfolding get_orders_shape_schema GetOrdersInputSchema_def
    by (simp add: k, rule bindE_fails, rule bindE_fails, rule bindE_fails, rule bindE_fails,
        rule bindE_fails) (simp add: e bindE_def)
qed

lemma get_orders_shape_Inr:
  assumes "get_orders_shape (JObj fs) = Inr parsed"
  shows "z_optional z_string (ownProp fs ''query'') = Inr (query parsed)"
    and "z_default (JNum (Finite 10)) z_number (ownProp fs ''limit'') = Inr (limit parsed)"
    and "z_optional z_string (ownProp fs ''after'') = Inr (after parsed)"
    and "z_optional z_string (ownProp fs ''before'') = Inr (before parsed)"
    and "z_default (JBool False) z_boolean (ownProp fs ''reverse'') = Inr (reverse parsed)"
    and "z_default (JStr ''PROCESSED_AT'') (z_enum OrderSortKeys) (ownProp fs ''sortKey'')
           = Inr (sortKey parsed)"
  using assms
  unfolding get_orders_shape_schema GetOrdersInputSchema_def
  by (auto simp add: bindE_Inr_iff)

lemma getOrders_variables_always:
  "getOrders_variables input ''reverse'' = Some (JBool (reverse input))"
  "getOrders_variables input ''sortKey'' = Some (JStr (sortKey input))"
  by (simp_all add: getOrders_variables_def getOrders_pagination_def getOrders_search_def Let_def)

lemma get_orders_tool_requests:
  "get_orders_shape args = Inr parsed \<Longrightarrow>
     requests (get_orders_tool stringify net m args) = requests (getOrders_execute net m parsed)"
  by (simp add: get_orders_tool_def server_tool_def get_orders_callback_def Let_def)

lemma get_order_by_id_tool_requests:
  "GetOrderByIdInputSchema args = Inr parsed \<Longrightarrow>
     requests (get_order_by_id_tool stringify net m args) = requests (getOrderById_execute net m parsed)"
  by (simp add: get_order_by_id_tool_def server_tool_def get_order_by_id_callback_def Let_def)


lemma get_orders_tool_rejects:
  "get_orders_shape args = Inl issue \<Longrightarrow>
     get_orders_tool stringify net m args = \<lparr>result = Inl (Inl issue), state = m, requests = []\<rparr>"
  by (simp add: get_orders_tool_def server_tool_def)

lemma get_order_by_id_tool_rejects:
  "GetOrderByIdInputSchema args = Inl issue \<Longrightarrow>
     get_order_by_id_tool stringify net m args
       = \<lparr>result = Inl (Inl issue), state = m, requests = []\<rparr>"
  by (simp add: get_order_by_id_tool_def server_tool_def)

lemma get_orders_tool_accepts:
  "get_orders_shape args = Inr parsed \<Longrightarrow>
     result (get_orders_tool stringify net m args) \<noteq> Inl (Inl issue)"
  by (simp add: get_orders_tool_def server_tool_def Let_def split: sum.splits)

lemma get_order_by_id_tool_accepts:
  "GetOrderByIdInputSchema args = Inr parsed \<Longrightarrow>
     result (get_order_by_id_tool stringify net m args) \<noteq> Inl (Inl issue)"
  by (simp add: get_order_by_id_tool_def server_tool_def Let_def split: sum.splits)

text \<open>
  Claim C7. The arguments of a tool call are parsed against the schema before
  \<^verbatim>\<open>execute\<close> runs. \<^verbatim>\<open>get-order-by-id\<close> rejects the empty \<^verbatim>\<open>orderId\<close>, and
  \<^verbatim>\<open>get-orders\<close> rejects a \<^verbatim>\<open>sortKey\<close> that is not one of the seven keys. When the
  parse fails the call ends with the issue, \<^verbatim>\<open>execute\<close> is not run, no request is made
  and the state is untouched; when it succeeds the requests are those of \<^verbatim>\<open>execute\<close> on
  the parsed arguments.
\<close>

theorem invalid_input_rejected:
  "(map_of fs' ''orderId'' = Some (JStr []) \<longrightarrow>
      result (get_order_by_id_tool stringify' net' m' (JObj fs')) = Inl (Inl too_small)
    \<and> requests (get_order_by_id_tool stringify' net' m' (JObj fs')) = []
    \<and> state (get_order_by_id_tool stringify' net' m' (JObj fs')) = m')
 \<and> (map_of fs ''sortKey'' = Some v \<and> v \<noteq> JUndefined \<and> v \<notin> JStr ` set OrderSortKeys \<longrightarrow>
      (\<exists>issue. result (get_orders_tool stringify net m (JObj fs)) = Inl (Inl issue))
    \<and> requests (get_orders_tool stringify net m (JObj fs)) = []
    \<and> state (get_orders_tool stringify net m (JObj fs)) = m)
 \<and> (GetOrderByIdInputSchema args' = Inl issue' \<longrightarrow>
      result (get_order_by_id_tool stringify' net' m' args') = Inl (Inl issue')
    \<and> requests (get_order_by_id_tool stringify' net' m' args') = []
    \<and> state (get_order_by_id_tool stringify' net' m' args') = m')
 \<and> (GetOrdersInputSchema args = Inl issue \<longrightarrow>
      result (get_orders_tool stringify net m args) = Inl (Inl issue)
    \<and> requests (get_orders_tool stringify net m args) = []
    \<and> state (get_orders_tool stringify net m args) = m)
 \<and> (GetOrderByIdInputSchema args' = Inr parsed' \<longrightarrow>
      result (get_order_by_id_tool stringify' net' m' args') \<noteq> Inl (Inl issue')
    \<and> requests (get_order_by_id_tool stringify' net' m' args')
        = requests (getOrderById_execute net' m' parsed'))
 \<and> (GetOrdersInputSchema args = Inr parsed \<longrightarrow>
      result (get_orders_tool stringify net m args) \<noteq> Inl (Inl issue)
    \<and> requests (get_orders_tool stringify net m args)
        = requests (getOrders_execute net m parsed))"
proof -
  have a: "map_of fs' ''orderId'' = Some (JStr []) \<longrightarrow>
      result (get_order_by_id_tool stringify' net' m' (JObj fs')) = Inl (Inl too_small)
    \<and> requests (get_order_by_id_tool stringify' net' m' (JObj fs')) = []
    \<and> state (get_order_by_id_tool stringify' net' m' (JObj fs')) = m'"
    by (simp add: get_order_by_id_tool_rejects [OF empty_orderId_rejected])
  have b: "map_of fs ''sortKey'' = Some v \<and> v \<noteq> JUndefined \<and> v \<notin> JStr ` set OrderSortKeys \<longrightarrow>
      (\<exists>issue. result (get_orders_tool stringify net m (JObj fs)) = Inl (Inl issue))
    \<and> requests (get_orders_tool stringify net m (JObj fs)) = []
    \<and> state (get_orders_tool stringify net m (JObj fs)) = m"
  proof (intro impI, elim conjE)
    assume "map_of fs ''sortKey'' = Some v" and "v \<noteq> JUndefined" and "v \<notin> JStr ` set OrderSortKeys"
    from bad_sortKey_rejected [OF this] obtain issue where
      "get_orders_shape (JObj fs) = Inl issue"
      by blast
    then show "(\<exists>issue. result (get_orders_tool stringify net m (JObj fs)) = Inl (Inl issue))
      \<and> requests (get_orders_tool stringify net m (JObj fs)) = []
      \<and> state (get_orders_tool stringify net m (JObj fs)) = m"
      by (simp add: get_orders_tool_rejects)
  qed
  have c: "GetOrderByIdInputSchema args' = Inl issue' \<longrightarrow>
      result (get_order_by_id_tool stringify' net' m' args') = Inl (Inl issue')
    \<and> requests (get_order_by_id_tool stringify' net' m' args') = []
    \<and> state (get_order_by_id_tool stringify' net' m' args') = m'"
    by (simp add: get_order_by_id_tool_rejects)
  have d: "GetOrdersInputSchema args = Inl issue \<longrightarrow>
      result (get_orders_tool stringify net m args) = Inl (Inl issue)
    \<and> requests (get_orders_tool stringify net m args) = []
    \<and> state (get_orders_tool stringify net m args) = m"
    by (simp add: get_orders_tool_rejects get_orders_shape_schema)
  have e: "GetOrderByIdInputSchema args' = Inr parsed' \<longrightarrow>
      result (get_order_by_id_tool stringify' net' m' args') \<noteq> Inl (Inl issue')
    \<and> requests (get_order_by_id_tool stringify' net' m' args')
        = requests (getOrderById_execute net' m' parsed')"
    by (simp add: get_order_by_id_tool_requests get_order_by_id_tool_accepts)
  have f: "GetOrdersInputSchema args = Inr parsed \<longrightarrow>
      result (get_orders_tool stringify net m args) \<noteq> Inl (Inl issue)
    \<and> requests (get_orders_tool stringify net m args)
        = requests (getOrders_execute net m parsed)"
    by (simp add: get_orders_tool_requests get_orders_tool_accepts
          get_orders_shape_schema [symmetric])
  show ?thesis
    by (intro conjI) (rule a b c d e f)+
qed

lemma bad_sortKey_sample: "map_of [(''sortKey'', JStr ''NAME'')] ''sortKey'' = Some (JStr ''NAME'')
            \<and> JStr ''NAME'' \<noteq> JUndefined \<and> JStr ''NAME'' \<notin> JStr ` set OrderSortKeys"
  by (auto simp add: OrderSortKeys_def)

text \<open>The theorem at an empty \<^verbatim>\<open>orderId\<close> and at the sort key \<^verbatim>\<open>NAME\<close>.\<close>

theorem invalid_input_rejected_witness:
  "result (get_order_by_id_tool blank shop installed (JObj [(''orderId'', JStr '''')]))
     = Inl (Inl too_small)
 \<and> requests (get_order_by_id_tool blank shop installed (JObj [(''orderId'', JStr '''')])) = []
 \<and> (\<exists>issue. result (get_orders_tool blank shop installed (JObj [(''sortKey'', JStr ''NAME'')]))
       = Inl (Inl issue))
 \<and> requests (get_orders_tool blank shop installed (JObj [(''sortKey'', JStr ''NAME'')])) = []"
proof -
  have h1: "map_of [(''orderId'', JStr '''')] ''orderId'' = Some (JStr [])"
    by simp
  note t = invalid_input_rejected
         [where fs' = "[(''orderId'', JStr '''')]" and stringify' = blank and net' = shop
            and m' = installed and fs = "[(''sortKey'', JStr ''NAME'')]" and v = "JStr ''NAME''"
            and stringify = blank and net = shop and m = installed]
  from t have a: "map_of [(''orderId'', JStr '''')] ''orderId'' = Some (JStr []) \<longrightarrow>
      result (get_order_by_id_tool blank shop installed (JObj [(''orderId'', JStr '''')])) = Inl (Inl too_small)
    \<and> requests (get_order_by_id_tool blank shop installed (JObj [(''orderId'', JStr '''')])) = []
    \<and> state (get_order_by_id_tool blank shop installed (JObj [(''orderId'', JStr '''')])) = installed"
    by (rule conjunct1)
  from t have b: "map_of [(''sortKey'', JStr ''NAME'')] ''sortKey'' = Some (JStr ''NAME'')
        \<and> JStr ''NAME'' \<noteq> JUndefined \<and> JStr ''NAME'' \<notin> JStr ` set OrderSortKeys \<longrightarrow>
      (\<exists>issue. result (get_orders_tool blank shop installed (JObj [(''sortKey'', JStr ''NAME'')])) = Inl (Inl issue))
    \<and> requests (get_orders_tool blank shop installed (JObj [(''sortKey'', JStr ''NAME'')])) = []
    \<and> state (get_orders_tool blank shop installed (JObj [(''sortKey'', JStr ''NAME'')])) = installed"
    by (rule conjunct1 [OF conjunct2])
  from a [rule_format, OF h1] b [rule_format, OF bad_sortKey_sample]
  show ?thesis by (elim conjE) (intro conjI, assumption+)
qed

section \<open>Defaults of get-orders\<close>

lemma z_optional_string_given:
  "z_optional z_string (ownProp fs key) = Inr x \<Longrightarrow> map_of fs key = Some (JStr s) \<Longrightarrow> x = Some s"
  by (simp add: z_optional_def ownProp_def bindE_def)

lemma z_optional_string_omitted:
  "z_optional z_string (ownProp fs key) = Inr x \<Longrightarrow> map_of fs key = None \<Longrightarrow> x = None"
  by (simp add: z_optional_def ownProp_def)

lemma z_default_omitted:
  "z_default d inner (ownProp fs key) = Inr x \<Longrightarrow> map_of fs key = None \<Longrightarrow> inner d = Inr x"
  by (simp add: z_default_def ownProp_def)

text \<open>
  Claim C9, as amended. In a \<^verbatim>\<open>get-orders\<close> call that passes the schema, an omitted
  \<^verbatim>\<open>limit\<close> is 10, and this 10 is sent as \<^verbatim>\<open>last\<close> when a non-empty \<^verbatim>\<open>before\<close> is
  given and as \<^verbatim>\<open>first\<close> otherwise; an omitted \<^verbatim>\<open>reverse\<close> is \<^verbatim>\<open>false\<close>; an
  omitted \<^verbatim>\<open>sortKey\<close> is \<^verbatim>\<open>PROCESSED_AT\<close>; and \<^verbatim>\<open>reverse\<close> and \<^verbatim>\<open>sortKey\<close> are
  in the variables of every request.
\<close>

theorem get_orders_defaults:
  assumes "get_orders_shape (JObj fs) = Inr parsed"
  shows "(map_of fs ''limit'' = None \<longrightarrow>
            limit parsed = Finite 10
          \<and> (before parsed = Some b \<and> b \<noteq> [] \<longrightarrow>
               getOrders_variables parsed ''last'' = Some (JNum (Finite 10))
             \<and> getOrders_variables parsed ''first'' = None)
          \<and> (before parsed = None \<or> before parsed = Some [] \<longrightarrow>
               getOrders_variables parsed ''first'' = Some (JNum (Finite 10))
             \<and> getOrders_variables parsed ''last'' = None))
       \<and> (map_of fs ''before'' = Some (JStr b) \<longrightarrow> before parsed = Some b)
       \<and> (map_of fs ''before'' = None \<longrightarrow> before parsed = None)
       \<and> (map_of fs ''reverse'' = None \<longrightarrow> reverse parsed = False)
       \<and> (map_of fs ''sortKey'' = None \<longrightarrow> sortKey parsed = ''PROCESSED_AT'')
       \<and> getOrders_variables parsed ''reverse'' = Some (JBool (reverse parsed))
       \<and> getOrders_variables parsed ''sortKey'' = Some (JStr (sortKey parsed))
       \<and> (shopifyClient m = Some client \<longrightarrow>
            requests (get_orders_tool stringify net m (JObj fs))
              = [(GetOrders_query, getOrders_variables parsed)])"
proof -
  note p = get_orders_shape_Inr [OF assms]
  have lim: "map_of fs ''limit'' = None \<longrightarrow> limit parsed = Finite 10"
    using z_default_omitted [OF p(2)] by auto
  have a: "map_of fs ''limit'' = None \<longrightarrow>
            limit parsed = Finite 10
          \<and> (before parsed = Some b \<and> b \<noteq> [] \<longrightarrow>
               getOrders_variables parsed ''last'' = Some (JNum (Finite 10))
             \<and> getOrders_variables parsed ''first'' = None)
          \<and> (before parsed = None \<or> before parsed = Some [] \<longrightarrow>
               getOrders_variables parsed ''first'' = Some (JNum (Finite 10))
             \<and> getOrders_variables parsed ''last'' = None)"
    using lim
    by (auto simp add: getOrders_variables_truthy_before getOrders_variables_falsy_before)
  have b: "map_of fs ''before'' = Some (JStr b) \<longrightarrow> before parsed = Some b"
    using z_optional_string_given [OF p(4)] by simp
  have c: "map_of fs ''before'' = None \<longrightarrow> before parsed = None"
    using z_optional_string_omitted [OF p(4)] by simp
  have d: "map_of fs ''reverse'' = None \<longrightarrow> reverse parsed = False"
    using z_default_omitted [OF p(5)] by auto
  have e: "map_of fs ''sortKey'' = None \<longrightarrow> sortKey parsed = ''PROCESSED_AT''"
    using z_default_omitted [OF p(6)] by (auto simp add: OrderSortKeys_def)
  note f = getOrders_variables_always(1) [of parsed]
  note g = getOrders_variables_always(2) [of parsed]
  have h: "shopifyClient m = Some client \<longrightarrow>
            requests (get_orders_tool stringify net m (JObj fs))
              = [(GetOrders_query, getOrders_variables parsed)]"
    by (simp add: get_orders_tool_requests [OF assms] getOrders_execute_requests)
  show ?thesis
    by (intro conjI) (rule a b c d e f g h)+
qed

text \<open>A call without arguments is the first page with all defaults.\<close>

lemma empty_args_parsed: "get_orders_shape (JObj []) = Inr firstPage"
  by (simp add: get_orders_shape_def ownProp_def z_optional_def z_default_def bindE_def
        firstPage_def)

text \<open>The theorem at the call without arguments.\<close>

theorem get_orders_defaults_witness:
  "limit firstPage = Finite 10
 \<and> getOrders_variables firstPage ''first'' = Some (JNum (Finite 10))
 \<and> reverse firstPage = False
 \<and> sortKey firstPage = ''PROCESSED_AT''
 \<and> requests (get_orders_tool blank shop installed (JObj []))
      = [(GetOrders_query, getOrders_variables firstPage)]"
proof -
  have n: "map_of ([] :: (string \<times> jsval) list) ''limit'' = None"
          "map_of ([] :: (string \<times> jsval) list) ''before'' = None"
          "map_of ([] :: (string \<times> jsval) list) ''reverse'' = None"
          "map_of ([] :: (string \<times> jsval) list) ''sortKey'' = None"
    by simp_all
  note t = get_orders_defaults
             [OF empty_args_parsed, where m = installed and client = sampleClient
                and stringify = blank and net = shop and b = "''c''"]
  from t n installed_client show ?thesis by simp
qed

text \<open>
  Claim C9 as first stated sends the default limit as \<^verbatim>\<open>last\<close> whenever \<^verbatim>\<open>before\<close>
  is given. Given as the empty string, \<^verbatim>\<open>before\<close> passes the schema and the default
  goes out as \<^verbatim>\<open>first\<close>; the variables have no \<^verbatim>\<open>last\<close>.
\<close>

theorem get_orders_empty_before_counterexample:
  "get_orders_shape (JObj [(''before'', JStr '''')])
     = Inr \<lparr>query = None, limit = Finite 10, after = None, before = Some '''',
            reverse = False, sortKey = ''PROCESSED_AT''\<rparr>
 \<and> map_of [(''before'', JStr '''')] ''limit'' = None
 \<and> map_of [(''before'', JStr '''')] ''before'' = Some (JStr '''')
 \<and> requests (get_orders_tool blank shop installed (JObj [(''before'', JStr '''')]))
     = [(GetOrders_query,
         [''reverse'' \<mapsto> JBool False, ''sortKey'' \<mapsto> JStr ''PROCESSED_AT'',
          ''first'' \<mapsto> JNum (Finite 10)])]
 \<and> [''reverse'' \<mapsto> JBool False, ''sortKey'' \<mapsto> JStr ''PROCESSED_AT'',
      ''first'' \<mapsto> JNum (Finite 10)] ''last'' = None"
proof -
  have p: "get_orders_shape (JObj [(''before'', JStr '''')])
     = Inr \<lparr>query = None, limit = Finite 10, after = None, before = Some '''',
            reverse = False, sortKey = ''PROCESSED_AT''\<rparr>"
    by (simp add: get_orders_shape_def ownProp_def z_optional_def z_default_def bindE_def)
  have r: "requests (get_orders_tool blank shop installed (JObj [(''before'', JStr '''')]))
     = [(GetOrders_query,
         [''reverse'' \<mapsto> JBool False, ''sortKey'' \<mapsto> JStr ''PROCESSED_AT'',
          ''first'' \<mapsto> JNum (Finite 10)])]"
    by (simp add: get_orders_tool_requests [OF p] getOrders_execute_requests installed_client
          getOrders_variables_def getOrders_pagination_def getOrders_search_def)
  from p r show ?thesis by simp
qed

end
